theory Spec2Isabelle
  imports Complex_Main
begin

section \<open>Run status sensors\<close>

text \<open>
  A shallow embedding of \<^verbatim>\<open>dagster/_core/definitions/run_status_sensor_definition.py\<close>:
  the cursor of a run status sensor, the definition of a sensor (the closure that
  \<^verbatim>\<open>RunStatusSensorDefinition.__init__\<close> builds), one evaluation of the sensor
  (\<^verbatim>\<open>_wrapped_fn\<close>), its direct invocation (\<^verbatim>\<open>__call__\<close>) and the decorator
  \<^verbatim>\<open>run_status_sensor\<close>.
\<close>

subsection \<open>The cursor and its serialization\<close>

text \<open>
  \<^verbatim>\<open>RunStatusSensorCursor\<close> is a named tuple of an \<^verbatim>\<open>int\<close> and a \<^verbatim>\<open>str\<close>; its
  constructor checks the two types, which the record's types do here.
\<close>

record run_status_sensor_cursor =
  record_id :: int
  update_timestamp :: string

text \<open>The two exceptions that \<^verbatim>\<open>is_valid\<close> catches.\<close>

datatype serdes_error = JSONDecodeError | DeserializationError

definition digit_chars :: string where
  "digit_chars = ''0123456789''"

definition is_digit :: "char \<Rightarrow> bool" where
  "is_digit c = (c \<in> set digit_chars)"

definition digit_val :: "char \<Rightarrow> nat" where
  "digit_val c = length (takeWhile (\<lambda>d. d \<noteq> c) digit_chars)"

fun show_nat :: "nat \<Rightarrow> string" where
  "show_nat n =
     (if n < 10 then [digit_chars ! n]
      else show_nat (n div 10) @ [digit_chars ! (n mod 10)])"

declare show_nat.simps [simp del]

definition show_int :: "int \<Rightarrow> string" where
  "show_int i = (if i < 0 then CHR ''-'' # show_nat (nat (- i)) else show_nat (nat i))"

definition parse_nat :: "string \<Rightarrow> (nat \<times> string) option" where
  "parse_nat s =
     (let ds = takeWhile is_digit s
      in if ds = [] then None
         else Some (foldl (\<lambda>a c. 10 * a + digit_val c) 0 ds, dropWhile is_digit s))"

definition parse_int :: "string \<Rightarrow> (int \<times> string) option" where
  "parse_int s =
     (case s of
        [] \<Rightarrow> None
      | c # r \<Rightarrow>
          if c = CHR ''-'' then map_option (\<lambda>(n, r'). (- int n, r')) (parse_nat r)
          else map_option (\<lambda>(n, r'). (int n, r')) (parse_nat s))"

definition dquote :: char where
  "dquote = CHR 0x22"

definition backslash :: char where
  "backslash = CHR 0x5C"

text \<open>A string between double quotes: a quote and a backslash are written after a backslash.\<close>

fun escape :: "string \<Rightarrow> string" where
  "escape [] = []"
| "escape (c # cs) =
     (if c = dquote \<or> c = backslash then backslash # c # escape cs else c # escape cs)"

text \<open>
  Reads the rest of a quoted string, after its opening quote: the text up to the closing
  quote, unescaped, and what follows the closing quote.
\<close>

fun parse_string_body :: "string \<Rightarrow> (string \<times> string) option" where
  "parse_string_body [] = None"
| "parse_string_body (c # cs) =
     (if c = dquote then Some ([], cs)
      else if c = backslash then
        (case cs of
           [] \<Rightarrow> None
         | d # ds \<Rightarrow>
             if d = dquote \<or> d = backslash
             then map_option (\<lambda>(s, r). (d # s, r)) (parse_string_body ds)
             else None)
      else map_option (\<lambda>(s, r). (c # s, r)) (parse_string_body cs))"

definition no_digit_ahead :: "string \<Rightarrow> bool" where
  "no_digit_ahead r = (case r of [] \<Rightarrow> True | c # cs \<Rightarrow> \<not> is_digit c)"

definition expect :: "string \<Rightarrow> string \<Rightarrow> string option" where
  "expect p s = (if take (length p) s = p then Some (drop (length p) s) else None)"

text \<open>
  The name under which \<^verbatim>\<open>@whitelist_for_serdes\<close> registers the class, and the
  table of \<^verbatim>\<open>register_serdes_tuple_fallbacks\<close> (line 107 of the source).
\<close>

definition cursor_class_name :: string where
  "cursor_class_name = ''RunStatusSensorCursor''"

definition serdes_tuple_fallbacks :: "(string \<times> string) list" where
  "serdes_tuple_fallbacks = [(''PipelineSensorCursor'', ''RunStatusSensorCursor'')]"

definition resolve_class :: "string \<Rightarrow> string option" where
  "resolve_class n =
     (case map_of serdes_tuple_fallbacks n of
        Some k \<Rightarrow> Some k
      | None \<Rightarrow> if n = cursor_class_name then Some n else None)"

text \<open>
  Modelled from the spec: \<^verbatim>\<open>serialize_value\<close> of \<^verbatim>\<open>dagster/_serdes/serdes.py\<close>,
  which is not among the sources. The spec asks for a versioned string that names the format
  and round-trips through the codec; the model writes the tuple as a JSON object whose first
  member is the class name, then the fields in their declared order. \<open>serialize_as\<close>
  writes it under a given class name, so that a string produced under the legacy name can be
  stated.
\<close>

definition serialize_as :: "string \<Rightarrow> run_status_sensor_cursor \<Rightarrow> string" where
  \<open>serialize_as cls c =
     ''{"__class__": "'' @ escape cls @ ''", "record_id": '' @ show_int (record_id c)
       @ '', "update_timestamp": "'' @ escape (update_timestamp c) @ ''"}''\<close>

definition serialize_value :: "run_status_sensor_cursor \<Rightarrow> string" where
  "serialize_value c = serialize_as cursor_class_name c"

text \<open>
  Modelled from the spec: \<^verbatim>\<open>deserialize_value\<close> of \<^verbatim>\<open>dagster/_serdes/serdes.py\<close>,
  which is not among the sources. It fails on malformed input, and consults the alias table
  before the primary format name. Text that is not of the serialized form is a
  \<open>JSONDecodeError\<close>, a class name that is neither registered nor an alias a
  \<open>DeserializationError\<close>.
\<close>

definition deserialize_value :: "string \<Rightarrow> serdes_error + run_status_sensor_cursor" where
  \<open>deserialize_value s =
     (case expect ''{"__class__": "'' s of
        None \<Rightarrow> Inl JSONDecodeError
      | Some r1 \<Rightarrow>
     (case parse_string_body r1 of
        None \<Rightarrow> Inl JSONDecodeError
      | Some (cls, r2) \<Rightarrow>
     (case expect '', "record_id": '' r2 of
        None \<Rightarrow> Inl JSONDecodeError
      | Some r3 \<Rightarrow>
     (case parse_int r3 of
        None \<Rightarrow> Inl JSONDecodeError
      | Some (i, r4) \<Rightarrow>
     (case expect '', "update_timestamp": "'' r4 of
        None \<Rightarrow> Inl JSONDecodeError
      | Some r5 \<Rightarrow>
     (case parse_string_body r5 of
        None \<Rightarrow> Inl JSONDecodeError
      | Some (ts, r6) \<Rightarrow>
          if r6 \<noteq> ''}'' then Inl JSONDecodeError
          else if resolve_class cls = Some cursor_class_name
          then Inr \<lparr>record_id = i, update_timestamp = ts\<rparr>
          else Inl DeserializationError))))))\<close>

text \<open>The three methods of the class, lines 90 to 103 of the source.\<close>

definition is_valid :: "string \<Rightarrow> bool" where
  "is_valid json_str = (case deserialize_value json_str of Inr obj \<Rightarrow> True | Inl e \<Rightarrow> False)"

definition to_json :: "run_status_sensor_cursor \<Rightarrow> string" where
  "to_json c = serialize_value c"

definition from_json :: "string \<Rightarrow> serdes_error + run_status_sensor_cursor" where
  "from_json json_str = deserialize_value json_str"

subsection \<open>Runs, events and the instance\<close>

type_synonym datetime = int

type_synonym dagster_run_status = string

type_synonym dagster_event_type = string

text \<open>
  The origin of a run: \<^verbatim>\<open>external_pipeline_origin.external_repository_origin\<close>, of which
  the code reads \<^verbatim>\<open>repository_name\<close> and \<^verbatim>\<open>repository_location_origin.location_name\<close>.
  A run that was executed by hand has no origin.
\<close>

record external_repository_origin =
  origin_location_name :: string
  origin_repository_name :: string

record dagster_run =
  run_id :: string
  pipeline_name :: string
  external_pipeline_origin :: "external_repository_origin option"

record run_record =
  dagster_run :: dagster_run
  run_update_timestamp :: datetime

record dagster_event =
  event_type :: dagster_event_type
  event_message :: string

record event_log_entry =
  entry_run_id :: string
  timestamp :: real
  entry_dagster_event :: dagster_event

record event_record =
  storage_id :: int
  event_log_entry :: event_log_entry

record dagster_instance =
  event_log :: "event_record list"
  run_storage :: "run_record list"

record run_sharded_events_cursor =
  cursor_id :: int
  run_updated_after :: datetime

record event_records_filter =
  filter_event_type :: dagster_event_type
  after_cursor :: "run_sharded_events_cursor option"

text \<open>
  Modelled from the spec: \<^verbatim>\<open>DagsterInstance.get_event_records\<close>, the event store, which
  is not among the sources. The spec gives its interface: the events of one type whose id
  is greater than the position given, ordered by id as asked, at most \<open>limit\<close> of them.
  The spec's query takes the position only, so \<open>run_updated_after\<close> selects nothing here.
\<close>

definition get_event_records ::
  "dagster_instance \<Rightarrow> event_records_filter \<Rightarrow> bool \<Rightarrow> nat \<Rightarrow> event_record list" where
  "get_event_records inst flt ascending limit =
     (let selected =
            filter (\<lambda>r. event_type (entry_dagster_event (event_log_entry r)) = filter_event_type flt
                        \<and> (case after_cursor flt of
                             None \<Rightarrow> True
                           | Some c \<Rightarrow> cursor_id c < storage_id r))
              (event_log inst);
          ordered = sort_key storage_id selected
      in take limit (if ascending then ordered else rev ordered))"

text \<open>
  Modelled from the spec: \<^verbatim>\<open>DagsterInstance.get_run_records\<close> with a filter on run ids,
  the run record store, which is not among the sources: the records of the runs asked for.
\<close>

definition get_run_records :: "dagster_instance \<Rightarrow> string list \<Rightarrow> run_record list" where
  "get_run_records inst run_ids =
     filter (\<lambda>r. run_id (dagster_run r) \<in> set run_ids) (run_storage inst)"

text \<open>
  The functions on times that the code calls, which belong to libraries outside the
  repository (\<^verbatim>\<open>pendulum\<close>, \<^verbatim>\<open>datetime\<close>) or are not among the sources
  (\<^verbatim>\<open>utc_datetime_from_timestamp\<close>): they are parameters of an evaluation.
  \<open>pendulum_parse\<close> is \<open>None\<close> where \<^verbatim>\<open>pendulum.parse\<close> raises.
\<close>

record time_functions =
  now_utc :: datetime
  isoformat :: "datetime \<Rightarrow> string"
  pendulum_parse :: "string \<Rightarrow> datetime option"
  utc_datetime_from_timestamp :: "real \<Rightarrow> datetime"

subsection \<open>What an evaluation yields, and the user's function\<close>

record exc_info =
  exc_class :: string
  exc_message :: string
  exc_traceback :: "string list"

record serializable_error_info =
  error_message :: string
  error_stack :: "string list"
  error_cls_name :: string

datatype tick_output =
    RunRequest string
  | SkipReason string
  | PipelineRunReaction dagster_run dagster_run_status "serializable_error_info option"

record run_status_sensor_context =
  sensor_name :: string
  context_dagster_run :: dagster_run
  context_dagster_event :: dagster_event
  context_instance :: dagster_instance

text \<open>
  What a call of the user's function does: it raises, or it returns \<^verbatim>\<open>None\<close>, one
  output, or an iterable. Iterating the iterable gives outputs and then ends, or raises
  after them (a generator whose body fails, or a value that cannot be iterated, which
  raises before any output).
\<close>

datatype sensor_return =
    ReturnsNone
  | ReturnsOutput tick_output
  | ReturnsIterable "tick_output list" "exc_info option"

datatype call_outcome =
    Returns sensor_return
  | Raises exc_info

text \<open>
  The user's function takes no parameter or a context parameter, whose name
  \<^verbatim>\<open>__call__\<close> reads. A function without parameters is given by what calling it does.
\<close>

datatype run_status_sensor_fn =
    NoArgFn call_outcome
  | ContextFn string "run_status_sensor_context \<Rightarrow> call_outcome"

definition positional_argument_type_error :: exc_info where
  "positional_argument_type_error =
     \<lparr>exc_class = ''TypeError'',
      exc_message = ''takes 0 positional arguments but 1 was given'',
      exc_traceback = []\<rparr>"

text \<open>
  The call \<^verbatim>\<open>run_status_sensor_fn(RunStatusSensorContext(...))\<close> of line 624: Python
  raises \<^verbatim>\<open>TypeError\<close> when the function takes no parameter.
\<close>

definition call_with_context ::
  "run_status_sensor_fn \<Rightarrow> run_status_sensor_context \<Rightarrow> call_outcome" where
  "call_with_context fn ctx =
     (case fn of
        ContextFn param body \<Rightarrow> body ctx
      | NoArgFn outcome \<Rightarrow> Raises positional_argument_type_error)"

text \<open>
  Modelled from the spec: \<^verbatim>\<open>serializable_error_info_from_exc_info\<close> of
  \<^verbatim>\<open>dagster/_utils/error.py\<close>, which is not among the sources: the error descriptor of
  an exception, its message and its structured trace.
\<close>

definition serializable_error_info_from_exc_info :: "exc_info \<Rightarrow> serializable_error_info" where
  "serializable_error_info_from_exc_info e =
     \<lparr>error_message = exc_message e, error_stack = exc_traceback e,
      error_cls_name = exc_class e\<rparr>"

text \<open>
  Modelled from the spec: \<^verbatim>\<open>user_code_error_boundary\<close> of \<^verbatim>\<open>dagster/_core/errors.py\<close>,
  which is not among the sources. Any exception raised by the user's logic inside the
  boundary leaves it as the boundary's error class, here
  \<^verbatim>\<open>RunStatusSensorExecutionError\<close>, which keeps the exception as
  \<^verbatim>\<open>original_exc_info\<close>.
\<close>

datatype run_status_sensor_execution_error = RunStatusSensorExecutionError exc_info

definition original_exc_info :: "run_status_sensor_execution_error \<Rightarrow> exc_info" where
  "original_exc_info err = (case err of RunStatusSensorExecutionError e \<Rightarrow> e)"

definition user_code_error_boundary :: "exc_info \<Rightarrow> run_status_sensor_execution_error" where
  "user_code_error_boundary e = RunStatusSensorExecutionError e"

subsection \<open>The definition of a sensor\<close>

datatype py_error =
    DagsterInvalidDefinitionError string
  | DagsterInvalidInvocationError string
  | CheckError string
  | KeyError string
  | ParserError string
  | SerdesError serdes_error

datatype default_sensor_status = RUNNING | STOPPED

text \<open>
  An entry of \<^verbatim>\<open>monitored_jobs\<close>: a job of the current repository (a pipeline, graph or
  unresolved asset job definition, of which the code reads the name), or a selector with its
  location, repository and job names.
\<close>

datatype monitored_job =
    JobDefinition string
  | RepositorySelector string string
  | JobSelector string string string
  | CodeLocationSelector string

definition to_repository_selector :: "monitored_job \<Rightarrow> monitored_job" where
  "to_repository_selector job =
     (case job of
        CodeLocationSelector location \<Rightarrow> RepositorySelector location ''__repository__''
      | _ \<Rightarrow> job)"

definition is_RepositorySelector :: "monitored_job \<Rightarrow> bool" where
  "is_RepositorySelector x = (case x of RepositorySelector l r \<Rightarrow> True | _ \<Rightarrow> False)"

definition is_JobSelector :: "monitored_job \<Rightarrow> bool" where
  "is_JobSelector x = (case x of JobSelector l r j \<Rightarrow> True | _ \<Rightarrow> False)"

definition definition_name :: "monitored_job \<Rightarrow> string option" where
  "definition_name x = (case x of JobDefinition n \<Rightarrow> Some n | _ \<Rightarrow> None)"

text \<open>
  What \<^verbatim>\<open>RunStatusSensorDefinition.__init__\<close> leaves in the closure of
  \<^verbatim>\<open>_wrapped_fn\<close> and in the object. \<^verbatim>\<open>request_job\<close> and \<^verbatim>\<open>request_jobs\<close> go
  to the base class unread and are left out.
\<close>

record run_status_sensor_definition =
  name :: string
  run_status :: dagster_run_status
  monitored_event_type :: dagster_event_type
  run_status_sensor_fn :: run_status_sensor_fn
  minimum_interval_seconds :: "int option"
  description :: "string option"
  monitored_jobs :: "monitored_job list"
  other_repos :: "monitored_job list"
  other_repo_jobs :: "monitored_job list"
  current_repo_jobs :: "monitored_job list"
  monitor_all_repositories :: bool
  default_status :: default_sensor_status

text \<open>
  \<^verbatim>\<open>__init__\<close>, lines 411 to 488. The table \<^verbatim>\<open>PIPELINE_RUN_STATUS_TO_EVENT_TYPE\<close>
  is not among the sources and is a parameter; the type checks of the arguments are the
  types here. The base class's \<^verbatim>\<open>__init__\<close> is not among the sources either and is
  taken to accept the sensor.
\<close>

definition RunStatusSensorDefinition_init ::
  "(dagster_run_status \<rightharpoonup> dagster_event_type) \<Rightarrow> string \<Rightarrow> dagster_run_status \<Rightarrow>
   run_status_sensor_fn \<Rightarrow> int option \<Rightarrow> string option \<Rightarrow> monitored_job list option \<Rightarrow> bool \<Rightarrow>
   default_sensor_status \<Rightarrow> py_error + run_status_sensor_definition" where
  "RunStatusSensorDefinition_init status_to_event_type nm status fn interval descr jobs_arg
     monitor_all dflt =
     (let jobs = map to_repository_selector (case jobs_arg of None \<Rightarrow> [] | Some js \<Rightarrow> js)
      in case status_to_event_type status of
           None \<Rightarrow> Inl (KeyError status)
         | Some et \<Rightarrow>
             Inr \<lparr>name = nm, run_status = status, monitored_event_type = et,
                  run_status_sensor_fn = fn, minimum_interval_seconds = interval,
                  description = descr, monitored_jobs = jobs,
                  other_repos = (if jobs \<noteq> [] then filter is_RepositorySelector jobs else []),
                  other_repo_jobs = (if jobs \<noteq> [] then filter is_JobSelector jobs else []),
                  current_repo_jobs =
                    (if jobs \<noteq> []
                     then filter (\<lambda>x. \<not> (is_JobSelector x \<or> is_RepositorySelector x)) jobs
                     else []),
                  monitor_all_repositories = monitor_all, default_status = dflt\<rparr>)"

text \<open>
  The decorator \<^verbatim>\<open>run_status_sensor\<close>, lines 727 to 822. Line 804 builds a
  \<^verbatim>\<open>DagsterInvalidDefinitionError\<close> and does not raise it: the value is dropped, as
  \<open>dropped\<close> is here.
\<close>

record run_status_sensor_arguments =
  arg_run_status :: dagster_run_status
  arg_name :: "string option"
  arg_minimum_interval_seconds :: "int option"
  arg_description :: "string option"
  arg_monitored_jobs :: "monitored_job list option"
  arg_job_selection :: "monitored_job list option"
  arg_monitor_all_repositories :: bool
  arg_default_status :: default_sensor_status

definition truthy :: "'a list option \<Rightarrow> bool" where
  "truthy xs = (case xs of None \<Rightarrow> False | Some ys \<Rightarrow> ys \<noteq> [])"

definition run_status_sensor ::
  "(dagster_run_status \<rightharpoonup> dagster_event_type) \<Rightarrow> run_status_sensor_arguments \<Rightarrow> string \<Rightarrow>
   run_status_sensor_fn \<Rightarrow> py_error + run_status_sensor_definition" where
  "run_status_sensor status_to_event_type a fn_name fn =
     (let sensor_name =
            (case arg_name a of None \<Rightarrow> fn_name | Some n \<Rightarrow> if n \<noteq> [] then n else fn_name);
          jobs = (if truthy (arg_monitored_jobs a) then arg_monitored_jobs a
                  else arg_job_selection a);
          dropped =
            (if truthy jobs \<and> arg_monitor_all_repositories a
             then Some (DagsterInvalidDefinitionError
                    (''Cannot specify both monitor_all_repositories and ''
                     @ (if truthy (arg_monitored_jobs a) then ''monitored_jobs''
                        else ''job_selection'') @ ''.''))
             else None)
      in RunStatusSensorDefinition_init status_to_event_type sensor_name (arg_run_status a) fn
           (arg_minimum_interval_seconds a) (arg_description a) jobs
           (arg_monitor_all_repositories a) (arg_default_status a))"

subsection \<open>One evaluation of the sensor\<close>

text \<open>
  The \<^verbatim>\<open>SensorEvaluationContext\<close> that the evaluation receives: its cursor, the name of
  the repository the sensor lives in, and the instance.
\<close>

record sensor_evaluation_context =
  cursor :: "string option"
  repository_name :: "string option"
  sensor_instance :: dagster_instance

text \<open>
  \<^verbatim>\<open>_wrapped_fn\<close> is a generator that writes to the context. An evaluation is what it
  has done when it is exhausted or has raised: the cursor of the context, the arguments of
  the calls of \<^verbatim>\<open>update_cursor\<close> and the outputs yielded, in order, the storage ids of
  the events that the loop body ran for and of those that the user's function was called
  for, and the exception that left the generator, if one did.
\<close>

record evaluation =
  context_cursor :: "string option"
  cursor_updates :: "string list"
  yielded :: "tick_output list"
  inspected :: "int list"
  invoked :: "int list"
  raised :: "py_error option"

definition update_cursor :: "evaluation \<Rightarrow> string \<Rightarrow> evaluation" where
  "update_cursor st c = st\<lparr>context_cursor := Some c, cursor_updates := cursor_updates st @ [c]\<rparr>"

definition yield_outputs :: "evaluation \<Rightarrow> tick_output list \<Rightarrow> evaluation" where
  "yield_outputs st outs = st\<lparr>yielded := yielded st @ outs\<rparr>"

text \<open>
  Lines 562 to 605: whether the run is one the sensor monitors. Line 588 reads the origin
  of the run through \<^verbatim>\<open>check.not_none\<close> and takes an attribute of the result, which
  raises for a run without origin.
\<close>

definition job_match ::
  "run_status_sensor_definition \<Rightarrow> sensor_evaluation_context \<Rightarrow> dagster_run \<Rightarrow> py_error + bool"
  where
  "job_match sd ctx pipeline_run =
     (let m1 = monitor_all_repositories sd;
          m2 =
            (if \<not> m1 then
               (case external_pipeline_origin pipeline_run of
                  None \<Rightarrow> False
                | Some origin \<Rightarrow>
                    if Some (origin_repository_name origin) = repository_name ctx then
                      (if monitored_jobs sd \<noteq> []
                       then Some (pipeline_name pipeline_run)
                              \<in> set (map definition_name (current_repo_jobs sd))
                       else True)
                    else False)
             else m1)
      in if \<not> m2 then
           (case external_pipeline_origin pipeline_run of
              None \<Rightarrow> Inl (CheckError ''Expected non-None value: None'')
            | Some origin \<Rightarrow>
                Inr (JobSelector (origin_location_name origin) (origin_repository_name origin)
                       (pipeline_name pipeline_run) \<in> set (other_repo_jobs sd)
                     \<or> RepositorySelector (origin_location_name origin)
                          (origin_repository_name origin) \<in> set (other_repos sd)))
         else Inr m2)"

text \<open>
  Lines 618 to 652, the \<^verbatim>\<open>try\<close> statement: the generator returns from inside it, or
  control leaves it with no error (the function returned \<^verbatim>\<open>None\<close>), or the
  \<^verbatim>\<open>except\<close> clause catches what the boundary raised.
\<close>

datatype try_result =
    Returned evaluation
  | FellThrough evaluation
  | Caught evaluation run_status_sensor_execution_error

definition user_code_block ::
  "run_status_sensor_fn \<Rightarrow> run_status_sensor_context \<Rightarrow> string \<Rightarrow> evaluation \<Rightarrow> try_result"
  where
  "user_code_block fn user_context new_cursor st =
     (case call_with_context fn user_context of
        Raises e \<Rightarrow> Caught st (user_code_error_boundary e)
      | Returns ReturnsNone \<Rightarrow> FellThrough st
      | Returns (ReturnsOutput out) \<Rightarrow>
          Returned (yield_outputs (update_cursor st new_cursor) [out])
      | Returns (ReturnsIterable outs None) \<Rightarrow>
          Returned (yield_outputs (update_cursor st new_cursor) outs)
      | Returns (ReturnsIterable outs (Some e)) \<Rightarrow>
          Caught (yield_outputs (update_cursor st new_cursor) outs)
            (user_code_error_boundary e))"

text \<open>
  The body of the loop, lines 536 to 668, for one event: the loop goes on to the next
  event, or the generator ends (it returns or raises).
\<close>

datatype loop_step = Continue evaluation | Stop evaluation

definition process_event ::
  "time_functions \<Rightarrow> run_status_sensor_definition \<Rightarrow> sensor_evaluation_context \<Rightarrow>
   evaluation \<Rightarrow> event_record \<Rightarrow> loop_step" where
  "process_event tf sd ctx st0 event_rec =
     (let entry = event_log_entry event_rec;
          sid = storage_id event_rec;
          st = st0\<lparr>inspected := inspected st0 @ [sid]\<rparr>
      in case get_run_records (sensor_instance ctx) [entry_run_id entry] of
           [rec] \<Rightarrow>
             (let pipeline_run = dagster_run rec;
                  new_cursor =
                    to_json \<lparr>record_id = sid,
                             update_timestamp = isoformat tf (run_update_timestamp rec)\<rparr>
              in case job_match sd ctx pipeline_run of
                   Inl err \<Rightarrow> Stop (st\<lparr>raised := Some err\<rparr>)
                 | Inr False \<Rightarrow> Continue (update_cursor st new_cursor)
                 | Inr True \<Rightarrow>
                     (let user_context =
                            \<lparr>sensor_name = name sd, context_dagster_run = pipeline_run,
                             context_dagster_event = entry_dagster_event entry,
                             context_instance = sensor_instance ctx\<rparr>;
                          st1 = st\<lparr>invoked := invoked st @ [sid]\<rparr>
                      in case user_code_block (run_status_sensor_fn sd) user_context
                                new_cursor st1 of
                           Returned st2 \<Rightarrow> Stop st2
                         | FellThrough st2 \<Rightarrow>
                             Continue (yield_outputs (update_cursor st2 new_cursor)
                               [PipelineRunReaction pipeline_run (run_status sd) None])
                         | Caught st2 err \<Rightarrow>
                             Continue (yield_outputs (update_cursor st2 new_cursor)
                               [PipelineRunReaction pipeline_run (run_status sd)
                                  (Some (serializable_error_info_from_exc_info
                                           (original_exc_info err)))])))
         | _ \<Rightarrow>
             Continue (update_cursor st
               (to_json \<lparr>record_id = sid,
                         update_timestamp =
                           isoformat tf (utc_datetime_from_timestamp tf (timestamp entry))\<rparr>)))"

fun scan_events ::
  "time_functions \<Rightarrow> run_status_sensor_definition \<Rightarrow> sensor_evaluation_context \<Rightarrow>
   evaluation \<Rightarrow> event_record list \<Rightarrow> evaluation" where
  "scan_events tf sd ctx st [] = st"
| "scan_events tf sd ctx st (event_rec # rest) =
     (case process_event tf sd ctx st event_rec of
        Continue st' \<Rightarrow> scan_events tf sd ctx st' rest
      | Stop st' \<Rightarrow> st')"

text \<open>
  The text of \<^verbatim>\<open>f"{new_cursor}"\<close> in the message of line 513: the named tuple's
  \<^verbatim>\<open>repr\<close>, with the timestamp between single quotes (a timestamp of
  \<^verbatim>\<open>isoformat\<close> holds no character that \<^verbatim>\<open>repr\<close> would escape).
\<close>

definition cursor_repr :: "run_status_sensor_cursor \<Rightarrow> string" where
  "cursor_repr c =
     ''RunStatusSensorCursor(record_id='' @ show_int (record_id c) @ '', update_timestamp=''
       @ [CHR 0x27] @ update_timestamp c @ [CHR 0x27] @ '')''"

definition initial_evaluation :: "sensor_evaluation_context \<Rightarrow> evaluation" where
  "initial_evaluation ctx =
     \<lparr>context_cursor = cursor ctx, cursor_updates = [], yielded = [], inspected = [],
      invoked = [], raised = None\<rparr>"

text \<open>Lines 497 to 514: the cursor is initiated at the most recent event of the type.\<close>

definition initiate_cursor ::
  "time_functions \<Rightarrow> run_status_sensor_definition \<Rightarrow> sensor_evaluation_context \<Rightarrow> evaluation"
  where
  "initiate_cursor tf sd ctx =
     (let most_recent_event_records =
            get_event_records (sensor_instance ctx)
              \<lparr>filter_event_type = monitored_event_type sd, after_cursor = None\<rparr> False 1;
          most_recent_event_id =
            (case most_recent_event_records of [r] \<Rightarrow> storage_id r | _ \<Rightarrow> - 1);
          new_cursor =
            \<lparr>record_id = most_recent_event_id, update_timestamp = isoformat tf (now_utc tf)\<rparr>
      in yield_outputs (update_cursor (initial_evaluation ctx) (to_json new_cursor))
           [SkipReason (''Initiating '' @ name sd @ ''. Set cursor to '' @ cursor_repr new_cursor)])"

text \<open>Lines 523 to 533: the events after the cursor, at most five, by ascending id.\<close>

definition fetch_events ::
  "run_status_sensor_definition \<Rightarrow> sensor_evaluation_context \<Rightarrow> int \<Rightarrow> datetime \<Rightarrow>
   event_record list" where
  "fetch_events sd ctx rid updated_after =
     get_event_records (sensor_instance ctx)
       \<lparr>filter_event_type = monitored_event_type sd,
        after_cursor = Some \<lparr>cursor_id = rid, run_updated_after = updated_after\<rparr>\<rparr> True 5"

text \<open>\<^verbatim>\<open>_wrapped_fn\<close>, lines 490 to 668.\<close>

definition wrapped_fn ::
  "time_functions \<Rightarrow> run_status_sensor_definition \<Rightarrow> sensor_evaluation_context \<Rightarrow> evaluation"
  where
  "wrapped_fn tf sd ctx =
     (case cursor ctx of
        None \<Rightarrow> initiate_cursor tf sd ctx
      | Some json_str \<Rightarrow>
          if \<not> is_valid json_str then initiate_cursor tf sd ctx
          else
            (case from_json json_str of
               Inl e \<Rightarrow> (initial_evaluation ctx)\<lparr>raised := Some (SerdesError e)\<rparr>
             | Inr c \<Rightarrow>
                 (case pendulum_parse tf (update_timestamp c) of
                    None \<Rightarrow>
                      (initial_evaluation ctx)\<lparr>raised := Some (ParserError (update_timestamp c))\<rparr>
                  | Some updated_after \<Rightarrow>
                      scan_events tf sd ctx (initial_evaluation ctx)
                        (fetch_events sd ctx (record_id c) updated_after))))"

subsection \<open>Ticks in sequence\<close>

text \<open>
  Modelled from the spec: the tick driver, which is not among the sources. It evaluates the
  sensor with the cursor it stored last and stores the cursor of the context afterwards.
  Each tick has its own times, repository name and instance. \<open>keep_failed\<close> says whether
  the cursor of an evaluation that raised is stored. The result lists, for each tick, the
  cursor stored before it, the evaluation, and the cursor stored after it.
\<close>

record tick_record =
  stored_before :: "string option"
  tick_evaluation :: evaluation
  stored_after :: "string option"

definition store_after :: "bool \<Rightarrow> string option \<Rightarrow> evaluation \<Rightarrow> string option" where
  "store_after keep_failed stored ev =
     (if raised ev = None \<or> keep_failed then context_cursor ev else stored)"

fun run_ticks ::
  "bool \<Rightarrow> run_status_sensor_definition \<Rightarrow> string option \<Rightarrow>
   (time_functions \<times> sensor_evaluation_context) list \<Rightarrow> tick_record list" where
  "run_ticks keep_failed sd stored [] = []"
| "run_ticks keep_failed sd stored ((tf, ctx) # ticks) =
     (let ev = wrapped_fn tf sd (ctx\<lparr>cursor := stored\<rparr>);
          stored' = store_after keep_failed stored ev
      in \<lparr>stored_before = stored, tick_evaluation = ev, stored_after = stored'\<rparr>
         # run_ticks keep_failed sd stored' ticks)"

subsection \<open>Direct invocation\<close>

text \<open>
  An argument of a direct invocation: \<^verbatim>\<open>None\<close>, a \<^verbatim>\<open>RunStatusSensorContext\<close>, or
  a value of another type. Keyword arguments are a list of pairs with distinct names.
\<close>

datatype py_value =
    PyNone
  | PyContext run_status_sensor_context
  | PyOther string

text \<open>
  \<^verbatim>\<open>check.opt_inst_param\<close> for the class \<^verbatim>\<open>RunStatusSensorContext\<close>; the check
  library is not among the sources. It gives back \<^verbatim>\<open>None\<close> and an instance of the
  class, and raises for a value of another type.
\<close>

definition opt_inst_param :: "py_value \<Rightarrow> string \<Rightarrow> py_error + run_status_sensor_context option"
  where
  "opt_inst_param v param_name =
     (case v of
        PyNone \<Rightarrow> Inr None
      | PyContext c \<Rightarrow> Inr (Some c)
      | PyOther t \<Rightarrow> Inl (CheckError param_name))"

definition call_checked_context ::
  "(run_status_sensor_context \<Rightarrow> call_outcome) \<Rightarrow> py_error + run_status_sensor_context option \<Rightarrow>
   py_error + call_outcome" where
  "call_checked_context body checked =
     (case checked of
        Inl e \<Rightarrow> Inl e
      | Inr None \<Rightarrow>
          Inl (DagsterInvalidInvocationError
                 ''Context must be provided for direct invocation of run status sensor.'')
      | Inr (Some context) \<Rightarrow> Inr (body context))"

text \<open>
  \<^verbatim>\<open>RunStatusSensorDefinition.__call__\<close>, lines 680 to 720. The result is the error
  raised before the user's function is called, or what the one call of the user's function
  does.
\<close>

definition sensor_call ::
  "run_status_sensor_definition \<Rightarrow> py_value list \<Rightarrow> (string \<times> py_value) list \<Rightarrow>
   py_error + call_outcome" where
  "sensor_call sd args kwargs =
     (case run_status_sensor_fn sd of
        ContextFn context_param_name body \<Rightarrow>
          if length args + length kwargs = 0 then
            Inl (DagsterInvalidInvocationError
                   (''Run status sensor function expected context argument, but no context ''
                    @ ''argument was provided when invoking.''))
          else if length args + length kwargs > 1 then
            Inl (DagsterInvalidInvocationError
                   (''Run status sensor invocation received multiple arguments. Only a first ''
                    @ ''positional context parameter should be provided when invoking.''))
          else
            (case args of
               a # rest \<Rightarrow> call_checked_context body (opt_inst_param a context_param_name)
             | [] \<Rightarrow>
                 (case map_of kwargs context_param_name of
                    None \<Rightarrow>
                      Inl (DagsterInvalidInvocationError
                             (''Run status sensor invocation expected argument '' @ [CHR 0x27]
                              @ context_param_name @ [CHR 0x27] @ ''.''))
                  | Some v \<Rightarrow> call_checked_context body (opt_inst_param v context_param_name)))
      | NoArgFn outcome \<Rightarrow>
          if length args + length kwargs > 0 then
            Inl (DagsterInvalidInvocationError
                   (''Run status sensor decorated function has no arguments, but arguments ''
                    @ ''were provided to invocation.''))
          else Inr outcome)"

subsection \<open>Notions the properties are stated with\<close>

text \<open>
  The batch of a tick that scans: the events that \<^verbatim>\<open>_wrapped_fn\<close> fetches when the
  cursor of the context is valid and its timestamp parses; \<open>None\<close> for a tick that
  initiates the cursor or raises before it fetches.
\<close>

definition scanning_batch ::
  "time_functions \<Rightarrow> run_status_sensor_definition \<Rightarrow> sensor_evaluation_context \<Rightarrow>
   event_record list option" where
  "scanning_batch tf sd ctx =
     (case cursor ctx of
        None \<Rightarrow> None
      | Some json_str \<Rightarrow>
          if \<not> is_valid json_str then None
          else
            (case from_json json_str of
               Inl e \<Rightarrow> None
             | Inr c \<Rightarrow>
                 (case pendulum_parse tf (update_timestamp c) of
                    None \<Rightarrow> None
                  | Some updated_after \<Rightarrow>
                      Some (fetch_events sd ctx (record_id c) updated_after))))"

text \<open>The run records that the loop body looks up for an event (line 540).\<close>

definition run_records_of :: "sensor_evaluation_context \<Rightarrow> event_record \<Rightarrow> run_record list" where
  "run_records_of ctx event_rec =
     get_run_records (sensor_instance ctx) [entry_run_id (event_log_entry event_rec)]"

text \<open>
  An event that the loop passes over without a call of the user's function and without an
  exception: its run is not found, or the run is found and is none the sensor monitors.
\<close>

definition event_skipped ::
  "run_status_sensor_definition \<Rightarrow> sensor_evaluation_context \<Rightarrow> event_record \<Rightarrow> bool" where
  "event_skipped sd ctx event_rec =
     (case run_records_of ctx event_rec of
        [rec] \<Rightarrow> job_match sd ctx (dagster_run rec) = Inr False
      | _ \<Rightarrow> True)"

text \<open>The context that line 625 builds for the user's function.\<close>

definition user_context_for ::
  "run_status_sensor_definition \<Rightarrow> sensor_evaluation_context \<Rightarrow> event_record \<Rightarrow> run_record \<Rightarrow>
   run_status_sensor_context" where
  "user_context_for sd ctx event_rec rec =
     \<lparr>sensor_name = name sd, context_dagster_run = dagster_run rec,
      context_dagster_event = entry_dagster_event (event_log_entry event_rec),
      context_instance = sensor_instance ctx\<rparr>"

text \<open>The cursor written for an event whose run is found.\<close>

definition cursor_for ::
  "time_functions \<Rightarrow> event_record \<Rightarrow> run_record \<Rightarrow> string" where
  "cursor_for tf event_rec rec =
     to_json \<lparr>record_id = storage_id event_rec,
              update_timestamp = isoformat tf (run_update_timestamp rec)\<rparr>"

text \<open>The record id that a stored cursor decodes to, if it decodes.\<close>

definition cursor_record_id :: "string option \<Rightarrow> int option" where
  "cursor_record_id stored =
     (case stored of
        None \<Rightarrow> None
      | Some json_str \<Rightarrow>
          (case from_json json_str of Inl e \<Rightarrow> None | Inr c \<Rightarrow> Some (record_id c)))"

text \<open>The ids of the events of a type in the log, and the latest of them, or \<open>-1\<close>.\<close>

definition event_ids :: "dagster_instance \<Rightarrow> dagster_event_type \<Rightarrow> int list" where
  "event_ids inst et =
     map storage_id
       (filter (\<lambda>r. event_type (entry_dagster_event (event_log_entry r)) = et) (event_log inst))"

definition latest_event_id :: "dagster_instance \<Rightarrow> dagster_event_type \<Rightarrow> int" where
  "latest_event_id inst et =
     (if event_ids inst et = [] then - 1 else Max (set (event_ids inst et)))"

definition visit :: "evaluation \<Rightarrow> event_record \<Rightarrow> evaluation" where
  "visit st e = st\<lparr>inspected := inspected st @ [storage_id e]\<rparr>"

text \<open>
  The cursor written for an event whose run is not found: the event's id and the event's own
  timestamp (lines 548 to 556).
\<close>

definition approximate_cursor :: "time_functions \<Rightarrow> event_record \<Rightarrow> string" where
  "approximate_cursor tf e =
     to_json \<lparr>record_id = storage_id e,
              update_timestamp =
                isoformat tf (utc_datetime_from_timestamp tf (timestamp (event_log_entry e)))\<rparr>"

text \<open>The cursor written for an event that is passed over.\<close>

definition skip_cursor ::
  "time_functions \<Rightarrow> sensor_evaluation_context \<Rightarrow> event_record \<Rightarrow> string" where
  "skip_cursor tf ctx e =
     (case run_records_of ctx e of
        [rec] \<Rightarrow> cursor_for tf e rec
      | _ \<Rightarrow> approximate_cursor tf e)"

text \<open>The reaction yielded for a run, with the descriptor of the error if there is one.\<close>

definition reaction ::
  "run_status_sensor_definition \<Rightarrow> run_record \<Rightarrow> exc_info option \<Rightarrow> tick_output" where
  "reaction sd rec err =
     PipelineRunReaction (dagster_run rec) (run_status sd)
       (map_option serializable_error_info_from_exc_info err)"

definition react ::
  "run_status_sensor_definition \<Rightarrow> time_functions \<Rightarrow> event_record \<Rightarrow> run_record \<Rightarrow>
   exc_info option \<Rightarrow> evaluation \<Rightarrow> evaluation" where
  "react sd tf e rec err st =
     yield_outputs (update_cursor st (cursor_for tf e rec)) [reaction sd rec err]"

definition call_user :: "evaluation \<Rightarrow> event_record \<Rightarrow> evaluation" where
  "call_user st e = (visit st e)\<lparr>invoked := invoked st @ [storage_id e]\<rparr>"

subsection \<open>Example inputs\<close>

text \<open>
  Stand-ins for the time library: a time is a number of seconds below sixty past
  \<^verbatim>\<open>2023-01-05T10:00:00\<close>, UTC.
\<close>

definition example_isoformat :: "datetime \<Rightarrow> string" where
  "example_isoformat t =
     ''2023-01-05T10:00:'' @ (if t < 10 then ''0'' else []) @ show_int t @ ''+00:00''"

definition example_parse :: "string \<Rightarrow> datetime option" where
  "example_parse s =
     (case expect ''2023-01-05T10:00:'' s of
        None \<Rightarrow> None
      | Some r \<Rightarrow> map_option (\<lambda>(n, r'). int n) (parse_nat r))"

definition example_times :: time_functions where
  "example_times =
     \<lparr>now_utc = 30, isoformat = example_isoformat, pendulum_parse = example_parse,
      utc_datetime_from_timestamp = (\<lambda>x. \<lfloor>x\<rfloor>)\<rparr>"

definition example_origin :: external_repository_origin where
  "example_origin = \<lparr>origin_location_name = ''loc'', origin_repository_name = ''repo''\<rparr>"

definition run_a :: run_record where
  "run_a =
     \<lparr>dagster_run = \<lparr>run_id = ''a'', pipeline_name = ''job_a'',
                      external_pipeline_origin = Some example_origin\<rparr>,
      run_update_timestamp = 11\<rparr>"

definition run_b :: run_record where
  "run_b =
     \<lparr>dagster_run = \<lparr>run_id = ''b'', pipeline_name = ''job_b'',
                      external_pipeline_origin = Some example_origin\<rparr>,
      run_update_timestamp = 12\<rparr>"

text \<open>A run executed by hand: it has no origin.\<close>

definition run_manual :: run_record where
  "run_manual =
     \<lparr>dagster_run = \<lparr>run_id = ''m'', pipeline_name = ''job_m'',
                      external_pipeline_origin = None\<rparr>,
      run_update_timestamp = 13\<rparr>"

definition success_event :: "int \<Rightarrow> string \<Rightarrow> real \<Rightarrow> event_record" where
  "success_event sid rid ts =
     \<lparr>storage_id = sid,
      event_log_entry =
        \<lparr>entry_run_id = rid, timestamp = ts,
         entry_dagster_event = \<lparr>event_type = ''PIPELINE_SUCCESS'', event_message = ''done''\<rparr>\<rparr>\<rparr>"

text \<open>Two successful runs of the repository.\<close>

definition instance_two :: dagster_instance where
  "instance_two =
     \<lparr>event_log = [success_event 1 ''a'' 1, success_event 2 ''b'' 2],
      run_storage = [run_a, run_b]\<rparr>"

text \<open>An event whose run is not stored, then a successful run of the repository.\<close>

definition instance_ghost :: dagster_instance where
  "instance_ghost =
     \<lparr>event_log = [success_event 1 ''ghost'' 1, success_event 2 ''b'' 2],
      run_storage = [run_a, run_b]\<rparr>"

text \<open>A run executed by hand, then a successful run of the repository.\<close>

definition instance_manual :: dagster_instance where
  "instance_manual =
     \<lparr>event_log = [success_event 1 ''m'' 1, success_event 2 ''b'' 2],
      run_storage = [run_manual, run_b]\<rparr>"

definition example_table :: "dagster_run_status \<rightharpoonup> dagster_event_type" where
  "example_table = [''SUCCESS'' \<mapsto> ''PIPELINE_SUCCESS'', ''FAILURE'' \<mapsto> ''PIPELINE_FAILURE'']"

text \<open>A sensor on the successes of its own repository, with a given user function.\<close>

definition example_sensor :: "run_status_sensor_fn \<Rightarrow> run_status_sensor_definition" where
  "example_sensor fn =
     \<lparr>name = ''my_sensor'', run_status = ''SUCCESS'', monitored_event_type = ''PIPELINE_SUCCESS'',
      run_status_sensor_fn = fn, minimum_interval_seconds = None, description = None,
      monitored_jobs = [], other_repos = [], other_repo_jobs = [], current_repo_jobs = [],
      monitor_all_repositories = False, default_status = STOPPED\<rparr>"

definition example_context :: "dagster_instance \<Rightarrow> string option \<Rightarrow> sensor_evaluation_context" where
  "example_context inst stored =
     \<lparr>cursor = stored, repository_name = Some ''repo'', sensor_instance = inst\<rparr>"

text \<open>A cursor before every event of the examples.\<close>

definition cursor_zero :: string where
  "cursor_zero = to_json \<lparr>record_id = 0, update_timestamp = example_isoformat 5\<rparr>"

definition returns_none :: run_status_sensor_fn where
  "returns_none = ContextFn ''context'' (\<lambda>c. Returns ReturnsNone)"

definition example_exception :: exc_info where
  "example_exception =
     \<lparr>exc_class = ''ValueError'', exc_message = ''boom'',
      exc_traceback = [''File sensors.py, line 7, in my_sensor'']\<rparr>"

definition always_raises :: run_status_sensor_fn where
  "always_raises = ContextFn ''context'' (\<lambda>c. Raises example_exception)"

definition requests_run :: run_status_sensor_fn where
  "requests_run = ContextFn ''context'' (\<lambda>c. Returns (ReturnsOutput (RunRequest ''key'')))"

subsection \<open>Notions for the first match of a tick\<close>

text \<open>The evaluation after the loop body has passed over an event.\<close>

definition pass_over ::
  "time_functions \<Rightarrow> sensor_evaluation_context \<Rightarrow> evaluation \<Rightarrow> event_record \<Rightarrow> evaluation" where
  "pass_over tf ctx st e = update_cursor (visit st e) (skip_cursor tf ctx e)"

text \<open>An event whose run is found and is one the sensor monitors.\<close>

definition event_matched ::
  "run_status_sensor_definition \<Rightarrow> sensor_evaluation_context \<Rightarrow> event_record \<Rightarrow> bool" where
  "event_matched sd ctx event_rec =
     (case run_records_of ctx event_rec of
        [rec] \<Rightarrow> job_match sd ctx (dagster_run rec) = Inr True
      | _ \<Rightarrow> False)"

text \<open>
  The exception that the user's function raises, when it is called or while its result is
  iterated, with the outputs that the iteration gave before it.
\<close>

definition failure_of :: "call_outcome \<Rightarrow> (tick_output list \<times> exc_info) option" where
  "failure_of outcome =
     (case outcome of
        Raises x \<Rightarrow> Some ([], x)
      | Returns (ReturnsIterable outs (Some x)) \<Rightarrow> Some (outs, x)
      | _ \<Rightarrow> None)"

text \<open>
  An evaluation in which the events \<open>pre\<close> were passed over and the user's function was
  then called for \<open>e\<close>, its first call: \<open>outs\<close> have been yielded, the cursor is at
  \<open>e\<close>, and nothing was raised.
\<close>

definition decided_at ::
  "time_functions \<Rightarrow> event_record list \<Rightarrow> event_record \<Rightarrow> run_record \<Rightarrow> tick_output list \<Rightarrow>
   evaluation \<Rightarrow> bool" where
  "decided_at tf pre e rec outs st =
     (yielded st = outs \<and> inspected st = map storage_id (pre @ [e])
      \<and> invoked st = [storage_id e] \<and> context_cursor st = Some (cursor_for tf e rec)
      \<and> raised st = None)"

text \<open>The arguments of a decorator call that names a job and monitors all repositories.\<close>

definition conflicting_arguments :: run_status_sensor_arguments where
  "conflicting_arguments =
     \<lparr>arg_run_status = ''SUCCESS'', arg_name = None, arg_minimum_interval_seconds = None,
      arg_description = None, arg_monitored_jobs = Some [JobDefinition ''job_a''],
      arg_job_selection = None, arg_monitor_all_repositories = True,
      arg_default_status = STOPPED\<rparr>"

definition example_user_context :: run_status_sensor_context where
  "example_user_context =
     \<lparr>sensor_name = ''my_sensor'', context_dagster_run = dagster_run run_a,
      context_dagster_event = \<lparr>event_type = ''PIPELINE_SUCCESS'', event_message = ''done''\<rparr>,
      context_instance = instance_two\<rparr>"

text \<open>
  Seven events of runs that are not stored, logged out of the order of their ids, and an
  event of another type.
\<close>

definition instance_seven :: dagster_instance where
  "instance_seven =
     \<lparr>event_log =
        [success_event 3 ''ghost'' 1, success_event 1 ''ghost'' 1, success_event 2 ''ghost'' 1,
         \<lparr>storage_id = 8,
          event_log_entry =
            \<lparr>entry_run_id = ''a'', timestamp = 1,
             entry_dagster_event =
               \<lparr>event_type = ''PIPELINE_FAILURE'', event_message = ''failed''\<rparr>\<rparr>\<rparr>,
         success_event 7 ''ghost'' 1, success_event 5 ''ghost'' 1, success_event 6 ''ghost'' 1,
         success_event 4 ''ghost'' 1],
      run_storage = [run_a, run_b]\<rparr>"

section \<open>Properties\<close>

subsection \<open>The cursor codec\<close>

lemma digit_chars_nth: "n < 10 \<Longrightarrow> digit_val (digit_chars ! n) = n \<and> is_digit (digit_chars ! n)"
proof -
  assume "n < 10"
  then have "n \<in> {0, 1, 2, 3, 4, 5, 6, 7, 8, 9}" by auto
  then show ?thesis
    by (auto simp: digit_val_def is_digit_def digit_chars_def)
qed

lemma show_nat_digits: "\<forall>c \<in> set (show_nat n). is_digit c"
proof (induction n rule: show_nat.induct)
  case (1 n)
  show ?case
  proof (cases "n < 10")
    case True
    then show ?thesis by (simp add: show_nat.simps [of n] digit_chars_nth)
  next
    case False
    with 1 show ?thesis by (simp add: show_nat.simps [of n] digit_chars_nth)
  qed
qed

lemma show_nat_nonempty: "show_nat n \<noteq> []"
  by (simp add: show_nat.simps [of n])

lemma foldl_show_nat: "foldl (\<lambda>a c. 10 * a + digit_val c) 0 (show_nat n) = n"
proof (induction n rule: show_nat.induct)
  case (1 n)
  show ?case
  proof (cases "n < 10")
    case True
    then show ?thesis by (simp add: show_nat.simps [of n] digit_chars_nth)
  next
    case False
    with 1 show ?thesis by (simp add: show_nat.simps [of n] digit_chars_nth)
  qed
qed

lemma takeWhile_digits: "no_digit_ahead r \<Longrightarrow> \<forall>c \<in> set ds. is_digit c \<Longrightarrow> takeWhile is_digit (ds @ r) = ds \<and> dropWhile is_digit (ds @ r) = r"
  by (induction ds) (auto simp: no_digit_ahead_def split: list.splits)

lemma parse_nat_show_nat: "no_digit_ahead r \<Longrightarrow> parse_nat (show_nat n @ r) = Some (n, r)"
  using takeWhile_digits [OF _ show_nat_digits, of r n]
  by (simp add: parse_nat_def show_nat_nonempty foldl_show_nat)

lemma show_nat_no_minus: "hd (show_nat n) \<noteq> CHR ''-''"
proof -
  have "hd (show_nat n) \<in> set (show_nat n)" by (simp add: show_nat_nonempty)
  then have "is_digit (hd (show_nat n))" using show_nat_digits by blast
  then show ?thesis by (auto simp: is_digit_def digit_chars_def)
qed

lemma parse_int_show_int: "no_digit_ahead r \<Longrightarrow> parse_int (show_int i @ r) = Some (i, r)"
proof -
  assume r: "no_digit_ahead r"
  show ?thesis
  proof (cases "i < 0")
    case True
    then show ?thesis by (simp add: parse_int_def show_int_def parse_nat_show_nat [OF r])
  next
    case False
    obtain c cs where cs: "show_nat (nat i) = c # cs"
      using show_nat_nonempty [of "nat i"] by (cases "show_nat (nat i)") auto
    with show_nat_no_minus [of "nat i"] have "c \<noteq> CHR ''-''" by simp
    with False cs parse_nat_show_nat [OF r, of "nat i"] show ?thesis
      by (simp add: parse_int_def show_int_def)
  qed
qed

lemma parse_string_body_escape: "parse_string_body (escape s @ dquote # r) = Some (s, r)"
  by (induction s) (auto simp: dquote_def backslash_def)

lemma expect_append: "expect p (p @ r) = Some r"
  by (simp add: expect_def)

lemma parse_string_body_escape': "parse_string_body (escape s @ CHR 0x22 # r) = Some (s, r)"
  using parse_string_body_escape [of s r] by (simp add: dquote_def)

lemma expect_Cons: "expect (p # ps) (c # cs) = (if c = p then expect ps cs else None)"
  by (simp add: expect_def)

lemma expect_Nil: "expect [] s = Some s"
  by (simp add: expect_def)

lemma deserialize_serialize_as:
  "deserialize_value (serialize_as cls c) =
     (if resolve_class cls = Some cursor_class_name then Inr c else Inl DeserializationError)"
proof -
  have nd: "\<And>r. no_digit_ahead (CHR '','' # r)"
    by (simp add: no_digit_ahead_def is_digit_def digit_chars_def)
  show ?thesis
    by (simp add: deserialize_value_def serialize_as_def expect_Cons expect_Nil
        parse_string_body_escape' parse_int_show_int [OF nd])
qed

lemma is_valid_to_json: "is_valid (to_json c)"
  by (simp add: is_valid_def to_json_def serialize_value_def deserialize_serialize_as
      resolve_class_def serdes_tuple_fallbacks_def cursor_class_name_def)

lemma from_json_to_json: "from_json (to_json c) = Inr c"
  by (simp add: from_json_def to_json_def serialize_value_def deserialize_serialize_as
      resolve_class_def serdes_tuple_fallbacks_def cursor_class_name_def)

text \<open>
  C7. Decoding the encoding of a cursor gives the cursor back, the encoding is valid, and
  the same text under the legacy class name \<^verbatim>\<open>PipelineSensorCursor\<close> decodes to the
  same cursor.
\<close>

theorem cursor_round_trip:
  "from_json (to_json c) = Inr c \<and> is_valid (to_json c)
   \<and> from_json (serialize_as ''PipelineSensorCursor'' c) = Inr c"
  by (simp add: from_json_def to_json_def is_valid_def serialize_value_def
      deserialize_serialize_as resolve_class_def serdes_tuple_fallbacks_def cursor_class_name_def)

theorem cursor_round_trip_witness:
  \<open>to_json \<lparr>record_id = - 1, update_timestamp = ''2023-01-05T10:00:00+00:00''\<rparr>
     = ''{"__class__": "RunStatusSensorCursor", "record_id": -1, "update_timestamp": "2023-01-05T10:00:00+00:00"}''
   \<and> from_json ''{"__class__": "RunStatusSensorCursor", "record_id": -1, "update_timestamp": "2023-01-05T10:00:00+00:00"}''
     = Inr \<lparr>record_id = - 1, update_timestamp = ''2023-01-05T10:00:00+00:00''\<rparr>
   \<and> from_json ''{"__class__": "PipelineSensorCursor", "record_id": -1, "update_timestamp": "2023-01-05T10:00:00+00:00"}''
     = Inr \<lparr>record_id = - 1, update_timestamp = ''2023-01-05T10:00:00+00:00''\<rparr>\<close>
  using cursor_round_trip [of "\<lparr>record_id = - 1, update_timestamp = ''2023-01-05T10:00:00+00:00''\<rparr>"]
  by (simp add: to_json_def serialize_value_def serialize_as_def cursor_class_name_def
      show_int_def show_nat.simps digit_chars_def dquote_def backslash_def)

subsection \<open>The body of the loop\<close>

lemma process_event_unresolved:
  "length (run_records_of ctx e) \<noteq> 1 \<Longrightarrow>
   process_event tf sd ctx st e = Continue (update_cursor (visit st e) (approximate_cursor tf e))"
  by (cases "run_records_of ctx e" rule: list.exhaust; cases "tl (run_records_of ctx e)")
     (auto simp: process_event_def run_records_of_def visit_def approximate_cursor_def Let_def
           split: list.splits)

lemma process_event_no_match:
  "run_records_of ctx e = [rec] \<Longrightarrow> job_match sd ctx (dagster_run rec) = Inr False \<Longrightarrow>
   process_event tf sd ctx st e = Continue (update_cursor (visit st e) (cursor_for tf e rec))"
  by (simp add: process_event_def run_records_of_def visit_def cursor_for_def Let_def)

lemma process_event_raises:
  "run_records_of ctx e = [rec] \<Longrightarrow> job_match sd ctx (dagster_run rec) = Inl err \<Longrightarrow>
   process_event tf sd ctx st e = Stop ((visit st e)\<lparr>raised := Some err\<rparr>)"
  by (simp add: process_event_def run_records_of_def visit_def cursor_for_def Let_def)

lemma process_event_matched:
  "run_records_of ctx e = [rec] \<Longrightarrow> job_match sd ctx (dagster_run rec) = Inr True \<Longrightarrow>
   process_event tf sd ctx st e =
     (case call_with_context (run_status_sensor_fn sd) (user_context_for sd ctx e rec) of
        Raises x \<Rightarrow> Continue (react sd tf e rec (Some x) (call_user st e))
      | Returns ReturnsNone \<Rightarrow> Continue (react sd tf e rec None (call_user st e))
      | Returns (ReturnsOutput out) \<Rightarrow>
          Stop (yield_outputs (update_cursor (call_user st e) (cursor_for tf e rec)) [out])
      | Returns (ReturnsIterable outs None) \<Rightarrow>
          Stop (yield_outputs (update_cursor (call_user st e) (cursor_for tf e rec)) outs)
      | Returns (ReturnsIterable outs (Some x)) \<Rightarrow>
          Continue (react sd tf e rec (Some x)
            (yield_outputs (update_cursor (call_user st e) (cursor_for tf e rec)) outs)))"
  by (simp add: process_event_def run_records_of_def visit_def cursor_for_def Let_def
      user_code_block_def user_context_for_def react_def reaction_def call_user_def
      original_exc_info_def user_code_error_boundary_def
      split: call_outcome.splits sensor_return.splits option.splits)

lemma process_event_skipped:
  "event_skipped sd ctx e \<Longrightarrow> process_event tf sd ctx st e = Continue (pass_over tf ctx st e)"
proof (cases "length (run_records_of ctx e) = 1")
  case True
  then obtain rec where rec: "run_records_of ctx e = [rec]"
    by (cases "run_records_of ctx e") auto
  assume "event_skipped sd ctx e"
  with rec have "job_match sd ctx (dagster_run rec) = Inr False"
    by (simp add: event_skipped_def)
  with rec show ?thesis
    by (simp add: process_event_no_match pass_over_def skip_cursor_def)
next
  case False
  then have "skip_cursor tf ctx e = approximate_cursor tf e"
    by (cases "run_records_of ctx e" rule: list.exhaust; cases "tl (run_records_of ctx e)")
       (auto simp: skip_cursor_def split: list.splits)
  with False show ?thesis
    by (simp add: process_event_unresolved pass_over_def)
qed

lemma scan_events_skipped:
  "\<forall>x \<in> set pre. event_skipped sd ctx x \<Longrightarrow>
   scan_events tf sd ctx st (pre @ rest) = scan_events tf sd ctx (foldl (pass_over tf ctx) st pre) rest"
  by (induction pre arbitrary: st) (simp_all add: process_event_skipped)

lemma foldl_pass_over:
  "yielded (foldl (pass_over tf ctx) st pre) = yielded st
   \<and> invoked (foldl (pass_over tf ctx) st pre) = invoked st
   \<and> raised (foldl (pass_over tf ctx) st pre) = raised st
   \<and> inspected (foldl (pass_over tf ctx) st pre) = inspected st @ map storage_id pre
   \<and> cursor_updates (foldl (pass_over tf ctx) st pre)
       = cursor_updates st @ map (skip_cursor tf ctx) pre"
  by (induction pre arbitrary: st) (simp_all add: pass_over_def update_cursor_def visit_def)

lemma wrapped_fn_scanning:
  "scanning_batch tf sd ctx = Some batch \<Longrightarrow>
   wrapped_fn tf sd ctx = scan_events tf sd ctx (initial_evaluation ctx) batch"
  by (auto simp: scanning_batch_def wrapped_fn_def split: option.splits if_splits sum.splits)

lemma decided_after_call:
  "decided_at tf pre e rec outs
     (yield_outputs (update_cursor (call_user (foldl (pass_over tf ctx) (initial_evaluation ctx0) pre) e)
        (cursor_for tf e rec)) outs)"
  by (simp add: decided_at_def yield_outputs_def update_cursor_def call_user_def visit_def
      foldl_pass_over initial_evaluation_def)

lemma decided_after_react:
  "decided_at tf pre e rec (outs @ [reaction sd rec err])
     (react sd tf e rec err (yield_outputs (update_cursor (call_user (foldl (pass_over tf ctx) (initial_evaluation ctx0) pre) e)
        (cursor_for tf e rec)) outs))"
  by (simp add: decided_at_def react_def yield_outputs_def update_cursor_def call_user_def visit_def
      foldl_pass_over initial_evaluation_def)

lemma decided_after_react0:
  "decided_at tf pre e rec [reaction sd rec err]
     (react sd tf e rec err (call_user (foldl (pass_over tf ctx) (initial_evaluation ctx0) pre) e))"
  by (simp add: decided_at_def react_def yield_outputs_def update_cursor_def call_user_def visit_def
      foldl_pass_over initial_evaluation_def)

subsection \<open>The examples, evaluated\<close>

lemma example_parse_iso: "example_parse (example_isoformat 5) = Some 5"
  by (simp add: example_parse_def example_isoformat_def expect_def parse_nat_def is_digit_def
      digit_chars_def digit_val_def show_int_def show_nat.simps)

lemma example_batch:
  "scanning_batch example_times (example_sensor fn) (example_context inst (Some cursor_zero))
     = Some (take 5 (sort_key storage_id (filter (\<lambda>r. 0 < storage_id r) (filter 
          (\<lambda>r. event_type (entry_dagster_event (event_log_entry r)) = ''PIPELINE_SUCCESS'') (event_log inst)))))"
  by (simp add: scanning_batch_def example_context_def cursor_zero_def is_valid_to_json
      from_json_to_json example_times_def example_parse_iso fetch_events_def
      get_event_records_def example_sensor_def)

lemma batch_two:
  "scanning_batch example_times (example_sensor fn) (example_context instance_two (Some cursor_zero))
     = Some [success_event 1 ''a'' 1, success_event 2 ''b'' 2]"
  by (simp add: example_batch instance_two_def success_event_def)

lemma runs_two:
  "run_records_of (example_context instance_two stored) (success_event 1 ''a'' 1) = [run_a]"
  "run_records_of (example_context instance_two stored) (success_event 2 ''b'' 2) = [run_b]"
  by (simp_all add: run_records_of_def get_run_records_def example_context_def instance_two_def
      success_event_def run_a_def run_b_def)

lemma match_example:
  "job_match (example_sensor fn) (example_context inst stored) (dagster_run run_a) = Inr True"
  "job_match (example_sensor fn) (example_context inst stored) (dagster_run run_b) = Inr True"
  by (simp_all add: job_match_def example_sensor_def example_context_def run_a_def run_b_def
      example_origin_def)

lemma example_sensor_fields:
  "run_status (example_sensor fn) = ''SUCCESS''"
  "name (example_sensor fn) = ''my_sensor''"
  "run_status_sensor_fn (example_sensor fn) = fn"
  by (simp_all add: example_sensor_def)

lemma tick_two_returns_none:
  "wrapped_fn example_times (example_sensor returns_none)
     (example_context instance_two (Some cursor_zero))
   = \<lparr>context_cursor = Some (cursor_for example_times (success_event 2 ''b'' 2) run_b),
      cursor_updates = [cursor_for example_times (success_event 1 ''a'' 1) run_a,
                        cursor_for example_times (success_event 2 ''b'' 2) run_b],
      yielded = [PipelineRunReaction (dagster_run run_a) ''SUCCESS'' None,
                 PipelineRunReaction (dagster_run run_b) ''SUCCESS'' None],
      inspected = [1, 2], invoked = [1, 2], raised = None\<rparr>"
proof -
  have call: "\<And>c. call_with_context returns_none c = Returns ReturnsNone"
    by (simp add: call_with_context_def returns_none_def)
  have sid: "\<And>i r t. storage_id (success_event i r t) = i"
    by (simp add: success_event_def)
  have ctx: "\<And>inst stored. cursor (example_context inst stored) = stored"
    by (simp add: example_context_def)
  show ?thesis
    by (simp add: wrapped_fn_scanning [OF batch_two]
        process_event_matched [OF runs_two(1) match_example(1)]
        process_event_matched [OF runs_two(2) match_example(2)] call react_def reaction_def
        yield_outputs_def update_cursor_def call_user_def visit_def initial_evaluation_def
        example_sensor_fields ctx sid)
qed

lemma batch_ghost:
  "scanning_batch example_times (example_sensor fn) (example_context instance_ghost (Some cursor_zero))
     = Some [success_event 1 ''ghost'' 1, success_event 2 ''b'' 2]"
  by (simp add: example_batch instance_ghost_def success_event_def)

lemma runs_ghost:
  "run_records_of (example_context instance_ghost stored) (success_event 1 ''ghost'' 1) = []"
  "run_records_of (example_context instance_ghost stored) (success_event 2 ''b'' 2) = [run_b]"
  by (simp_all add: run_records_of_def get_run_records_def example_context_def instance_ghost_def
      success_event_def run_a_def run_b_def)

lemma example_iso:
  "isoformat example_times 1 = ''2023-01-05T10:00:01+00:00''"
  "isoformat example_times 12 = ''2023-01-05T10:00:12+00:00''"
  "isoformat example_times 30 = ''2023-01-05T10:00:30+00:00''"
  by (simp_all add: example_times_def example_isoformat_def show_int_def show_nat.simps
      digit_chars_def)

lemma example_event_fields:
  "storage_id (success_event i r t) = i"
  "timestamp (event_log_entry (success_event i r t)) = t"
  "entry_run_id (event_log_entry (success_event i r t)) = r"
  by (simp_all add: success_event_def)

lemma example_context_fields:
  "cursor (example_context inst stored) = stored"
  "repository_name (example_context inst stored) = Some ''repo''"
  "sensor_instance (example_context inst stored) = inst"
  by (simp_all add: example_context_def)

lemma example_floor: "utc_datetime_from_timestamp example_times 1 = 1"
  by (simp add: example_times_def)

subsection \<open>An event whose run is not found\<close>

text \<open>
  C9. When the lookup of an event's run does not give exactly one record, the loop body
  does not raise, does not call the user's function and yields nothing: it records the
  event's id with the timestamp of the event itself as the cursor, and the loop goes on
  with the next event.
\<close>

theorem unresolved_run_is_skipped:
  assumes "length (run_records_of ctx e) \<noteq> 1"
  shows
    "process_event tf sd ctx st e =
       Continue (st\<lparr>inspected := inspected st @ [storage_id e],
                    context_cursor :=
                      Some (to_json \<lparr>record_id = storage_id e,
                                     update_timestamp =
                                       isoformat tf (utc_datetime_from_timestamp tf
                                         (timestamp (event_log_entry e)))\<rparr>),
                    cursor_updates :=
                      cursor_updates st
                      @ [to_json \<lparr>record_id = storage_id e,
                                  update_timestamp =
                                    isoformat tf (utc_datetime_from_timestamp tf
                                      (timestamp (event_log_entry e)))\<rparr>]\<rparr>)
     \<and> scan_events tf sd ctx st (e # rest) =
         scan_events tf sd ctx
           (st\<lparr>inspected := inspected st @ [storage_id e],
                context_cursor :=
                  Some (to_json \<lparr>record_id = storage_id e,
                                 update_timestamp =
                                   isoformat tf (utc_datetime_from_timestamp tf
                                     (timestamp (event_log_entry e)))\<rparr>),
                cursor_updates :=
                  cursor_updates st
                  @ [to_json \<lparr>record_id = storage_id e,
                              update_timestamp =
                                isoformat tf (utc_datetime_from_timestamp tf
                                  (timestamp (event_log_entry e)))\<rparr>]\<rparr>) rest"
  using process_event_unresolved [OF assms, of tf sd st]
  by (simp add: update_cursor_def visit_def approximate_cursor_def)

theorem unresolved_run_is_skipped_witness:
  "wrapped_fn example_times (example_sensor requests_run)
     (example_context instance_ghost (Some cursor_zero))
   = \<lparr>context_cursor =
        Some (to_json \<lparr>record_id = 2, update_timestamp = ''2023-01-05T10:00:12+00:00''\<rparr>),
      cursor_updates =
        [to_json \<lparr>record_id = 1, update_timestamp = ''2023-01-05T10:00:01+00:00''\<rparr>,
         to_json \<lparr>record_id = 2, update_timestamp = ''2023-01-05T10:00:12+00:00''\<rparr>],
      yielded = [RunRequest ''key''], inspected = [1, 2], invoked = [2], raised = None\<rparr>"
proof -
  have unresolved:
    "length (run_records_of (example_context instance_ghost (Some cursor_zero))
       (success_event 1 ''ghost'' 1)) \<noteq> 1"
    by (simp add: runs_ghost)
  have call: "\<And>c. call_with_context requests_run c = Returns (ReturnsOutput (RunRequest ''key''))"
    by (simp add: call_with_context_def requests_run_def)
  have upd: "run_update_timestamp run_b = 12"
    by (simp add: run_b_def)
  show ?thesis
    using unresolved_run_is_skipped [OF unresolved, of example_times "example_sensor requests_run"
        "initial_evaluation (example_context instance_ghost (Some cursor_zero))"
        "[success_event 2 ''b'' 2]"]
    by (simp add: wrapped_fn_scanning [OF batch_ghost]
        process_event_matched [OF runs_ghost(2) match_example(2)] call
        yield_outputs_def update_cursor_def call_user_def visit_def initial_evaluation_def
        example_sensor_fields example_context_fields example_event_fields example_iso
        example_floor cursor_for_def upd)
qed

subsection \<open>The first matching event of a tick\<close>

text \<open>
  C1, as amended. In a tick whose batch holds a matching event after events that are passed
  over, the user's function is called for that event, and what the call does is one
  decision: when it returns an output or an iterable that ends, the outputs are yielded
  and the tick stops there, the later events of the batch uninspected; when it returns
  \<^verbatim>\<open>None\<close> or fails, one reaction is yielded for the event (after the outputs that
  an iterable gave before it failed) and the loop goes on with the later events.
\<close>

theorem first_match_decision:
  assumes batch: "scanning_batch tf sd ctx = Some (pre @ e # post)"
    and pre: "\<forall>x \<in> set pre. event_skipped sd ctx x"
    and run: "run_records_of ctx e = [rec]"
    and match: "job_match sd ctx (dagster_run rec) = Inr True"
  shows
    "(case call_with_context (run_status_sensor_fn sd) (user_context_for sd ctx e rec) of
        Returns (ReturnsOutput out) \<Rightarrow> decided_at tf pre e rec [out] (wrapped_fn tf sd ctx)
      | Returns (ReturnsIterable outs None) \<Rightarrow> decided_at tf pre e rec outs (wrapped_fn tf sd ctx)
      | Returns ReturnsNone \<Rightarrow>
          (\<exists>st. decided_at tf pre e rec [reaction sd rec None] st
                \<and> wrapped_fn tf sd ctx = scan_events tf sd ctx st post)
      | Raises x \<Rightarrow>
          (\<exists>st. decided_at tf pre e rec [reaction sd rec (Some x)] st
                \<and> wrapped_fn tf sd ctx = scan_events tf sd ctx st post)
      | Returns (ReturnsIterable outs (Some x)) \<Rightarrow>
          (\<exists>st. decided_at tf pre e rec (outs @ [reaction sd rec (Some x)]) st
                \<and> wrapped_fn tf sd ctx = scan_events tf sd ctx st post))"
proof -
  let ?st = "foldl (pass_over tf ctx) (initial_evaluation ctx) pre"
  have w: "wrapped_fn tf sd ctx =
      (case process_event tf sd ctx ?st e of
         Continue st' \<Rightarrow> scan_events tf sd ctx st' post
       | Stop st' \<Rightarrow> st')"
    using wrapped_fn_scanning [OF batch] scan_events_skipped [OF pre] by simp
  let ?call = "call_with_context (run_status_sensor_fn sd) (user_context_for sd ctx e rec)"
  note step = process_event_matched [OF run match, of tf ?st]
  show ?thesis
  proof (cases ?call)
    case (Raises x)
    with w step decided_after_react0 [of tf pre e rec sd "Some x" ctx ctx] show ?thesis
      by auto
  next
    case (Returns ret)
    show ?thesis
    proof (cases ret)
      case ReturnsNone
      with Returns w step decided_after_react0 [of tf pre e rec sd None ctx ctx] show ?thesis
        by auto
    next
      case (ReturnsOutput out)
      with Returns w step decided_after_call [of tf pre e rec "[out]" ctx ctx] show ?thesis
        by simp
    next
      case (ReturnsIterable outs failure)
      show ?thesis
      proof (cases failure)
        case None
        with ReturnsIterable Returns w step decided_after_call [of tf pre e rec outs ctx ctx]
        show ?thesis by simp
      next
        case (Some x)
        with ReturnsIterable Returns w step
          decided_after_react [of tf pre e rec outs sd "Some x" ctx ctx]
        show ?thesis by auto
      qed
    qed
  qed
qed

text \<open>
  C1, as stated, fails: with two matching events in the batch and a user function that
  returns \<^verbatim>\<open>None\<close>, the tick yields two reactions and inspects the second event.
\<close>

theorem one_decision_per_tick_counterexample:
  "yielded (wrapped_fn example_times (example_sensor returns_none)
              (example_context instance_two (Some cursor_zero)))
     = [PipelineRunReaction (dagster_run run_a) ''SUCCESS'' None,
        PipelineRunReaction (dagster_run run_b) ''SUCCESS'' None]
   \<and> inspected (wrapped_fn example_times (example_sensor returns_none)
              (example_context instance_two (Some cursor_zero))) = [1, 2]
   \<and> invoked (wrapped_fn example_times (example_sensor returns_none)
              (example_context instance_two (Some cursor_zero))) = [1, 2]"
  by (simp add: tick_two_returns_none)

theorem first_match_decision_witness:
  "decided_at example_times [success_event 1 ''ghost'' 1] (success_event 2 ''b'' 2) run_b
     [RunRequest ''key'']
     (wrapped_fn example_times (example_sensor requests_run)
        (example_context instance_ghost (Some cursor_zero)))"
proof -
  have batch:
    "scanning_batch example_times (example_sensor requests_run)
       (example_context instance_ghost (Some cursor_zero))
     = Some ([success_event 1 ''ghost'' 1] @ success_event 2 ''b'' 2 # [])"
    by (simp add: batch_ghost)
  have pre: "\<forall>x \<in> set [success_event 1 ''ghost'' 1].
      event_skipped (example_sensor requests_run)
        (example_context instance_ghost (Some cursor_zero)) x"
    by (simp add: event_skipped_def runs_ghost)
  have call: "\<And>c. call_with_context requests_run c = Returns (ReturnsOutput (RunRequest ''key''))"
    by (simp add: call_with_context_def requests_run_def)
  show ?thesis
    using first_match_decision [OF batch pre runs_ghost(2) match_example(2)]
    by (simp add: call example_sensor_fields)
qed

subsection \<open>An exception of the user's function\<close>

text \<open>
  C6. When the user's function raises on a matched event, at the call or while its result
  is iterated, the loop body does not raise: it yields (after the outputs that came before
  the exception) a reaction for the run that carries the descriptor of the exception, its
  message, trace and class; the cursor is at the event; and the loop goes on.
\<close>

theorem user_exception_becomes_reaction:
  assumes run: "run_records_of ctx e = [rec]"
    and match: "job_match sd ctx (dagster_run rec) = Inr True"
    and fails: "failure_of (call_with_context (run_status_sensor_fn sd)
                  (user_context_for sd ctx e rec)) = Some (outs, x)"
  shows
    "\<exists>st'. process_event tf sd ctx st e = Continue st'
       \<and> yielded st' =
           yielded st @ outs
           @ [PipelineRunReaction (dagster_run rec) (run_status sd)
                (Some \<lparr>error_message = exc_message x, error_stack = exc_traceback x,
                       error_cls_name = exc_class x\<rparr>)]
       \<and> context_cursor st' =
           Some (to_json \<lparr>record_id = storage_id e,
                          update_timestamp = isoformat tf (run_update_timestamp rec)\<rparr>)
       \<and> raised st' = raised st"
  using fails process_event_matched [OF run match, of tf st]
  by (auto simp: failure_of_def react_def reaction_def yield_outputs_def update_cursor_def
      call_user_def visit_def cursor_for_def serializable_error_info_from_exc_info_def
      split: call_outcome.splits sensor_return.splits option.splits)

theorem user_exception_becomes_reaction_witness:
  "wrapped_fn example_times (example_sensor always_raises)
     (example_context instance_ghost (Some cursor_zero))
   = \<lparr>context_cursor =
        Some (to_json \<lparr>record_id = 2, update_timestamp = ''2023-01-05T10:00:12+00:00''\<rparr>),
      cursor_updates =
        [to_json \<lparr>record_id = 1, update_timestamp = ''2023-01-05T10:00:01+00:00''\<rparr>,
         to_json \<lparr>record_id = 2, update_timestamp = ''2023-01-05T10:00:12+00:00''\<rparr>],
      yielded =
        [PipelineRunReaction (dagster_run run_b) ''SUCCESS''
           (Some \<lparr>error_message = ''boom'',
                  error_stack = [''File sensors.py, line 7, in my_sensor''],
                  error_cls_name = ''ValueError''\<rparr>)],
      inspected = [1, 2], invoked = [2], raised = None\<rparr>"
proof -
  let ?ctx = "example_context instance_ghost (Some cursor_zero)"
  let ?sd = "example_sensor always_raises"
  let ?st = "pass_over example_times ?ctx (initial_evaluation ?ctx) (success_event 1 ''ghost'' 1)"
  have fails: "failure_of (call_with_context (run_status_sensor_fn ?sd)
      (user_context_for ?sd ?ctx (success_event 2 ''b'' 2) run_b)) = Some ([], example_exception)"
    by (simp add: failure_of_def call_with_context_def always_raises_def example_sensor_fields)
  have skipped: "event_skipped ?sd ?ctx (success_event 1 ''ghost'' 1)"
    by (simp add: event_skipped_def runs_ghost)
  have upd: "run_update_timestamp run_b = 12"
    by (simp add: run_b_def)
  note run = runs_ghost(2) [of "Some cursor_zero"]
  note match = match_example(2) [of always_raises instance_ghost "Some cursor_zero"]
  from user_exception_becomes_reaction [OF run match fails,
      where tf = example_times and st = ?st]
  obtain st' where st':
    "process_event example_times ?sd ?ctx ?st (success_event 2 ''b'' 2) = Continue st'"
    by blast
  have "wrapped_fn example_times ?sd ?ctx = st'"
    using st' by (simp add: wrapped_fn_scanning [OF batch_ghost] process_event_skipped [OF skipped])
  moreover have "st' = react ?sd example_times (success_event 2 ''b'' 2) run_b
      (Some example_exception) (call_user ?st (success_event 2 ''b'' 2))"
    using st' process_event_matched [OF run match, where tf = example_times and st = ?st]
    by (simp add: call_with_context_def always_raises_def example_sensor_fields)
  ultimately show ?thesis
    by (simp add: react_def reaction_def yield_outputs_def update_cursor_def call_user_def
        visit_def pass_over_def skip_cursor_def runs_ghost approximate_cursor_def
        initial_evaluation_def cursor_for_def example_sensor_fields example_context_fields
        example_event_fields example_iso example_floor upd example_exception_def
        serializable_error_info_from_exc_info_def)
qed

subsection \<open>A run without origin\<close>

lemma manual_run_raises:
  "\<not> monitor_all_repositories sd \<Longrightarrow> external_pipeline_origin run = None \<Longrightarrow>
   job_match sd ctx run = Inl (CheckError ''Expected non-None value: None'')"
  by (simp add: job_match_def)

lemma batch_manual:
  "scanning_batch example_times (example_sensor fn) (example_context instance_manual (Some cursor_zero))
     = Some [success_event 1 ''m'' 1, success_event 2 ''b'' 2]"
  by (simp add: example_batch instance_manual_def success_event_def)

lemma runs_manual:
  "run_records_of (example_context instance_manual stored) (success_event 1 ''m'' 1) = [run_manual]"
  by (simp add: run_records_of_def get_run_records_def example_context_def instance_manual_def
      success_event_def run_manual_def run_b_def)

text \<open>
  C2. The claim asks that an event whose run has no origin, for a sensor that does not
  monitor all repositories, is passed over without an exception. The code raises there:
  line 588 requires the origin of the run. At the example, the first event of the batch is
  of a run executed by hand; the tick raises at it, with the cursor where it was and the
  second event of the batch never reached.
\<close>

theorem manual_run_raises_in_tick:
  "wrapped_fn example_times (example_sensor returns_none)
     (example_context instance_manual (Some cursor_zero))
   = \<lparr>context_cursor = Some cursor_zero, cursor_updates = [], yielded = [], inspected = [1],
      invoked = [], raised = Some (CheckError ''Expected non-None value: None'')\<rparr>"
proof -
  have m: "job_match (example_sensor returns_none)
      (example_context instance_manual (Some cursor_zero)) (dagster_run run_manual)
      = Inl (CheckError ''Expected non-None value: None'')"
    by (rule manual_run_raises) (simp_all add: example_sensor_def run_manual_def)
  show ?thesis
    by (simp add: wrapped_fn_scanning [OF batch_manual] process_event_raises [OF runs_manual m]
        visit_def initial_evaluation_def example_context_fields example_event_fields)
qed

subsection \<open>The decorator\<close>

text \<open>
  C3. The claim asks that \<^verbatim>\<open>monitor_all_repositories\<close> together with
  \<^verbatim>\<open>monitored_jobs\<close> is refused. Line 804 builds the error and does not raise it: the
  decorator returns a sensor that holds both.
\<close>

theorem monitor_all_with_jobs_is_accepted:
  "run_status_sensor example_table conflicting_arguments ''my_sensor'' returns_none
   = Inr \<lparr>name = ''my_sensor'', run_status = ''SUCCESS'',
          monitored_event_type = ''PIPELINE_SUCCESS'', run_status_sensor_fn = returns_none,
          minimum_interval_seconds = None, description = None,
          monitored_jobs = [JobDefinition ''job_a''], other_repos = [], other_repo_jobs = [],
          current_repo_jobs = [JobDefinition ''job_a''], monitor_all_repositories = True,
          default_status = STOPPED\<rparr>"
  by (simp add: run_status_sensor_def conflicting_arguments_def RunStatusSensorDefinition_init_def
      example_table_def truthy_def to_repository_selector_def is_RepositorySelector_def
      is_JobSelector_def Let_def)

subsection \<open>Direct invocation\<close>

text \<open>
  C10, as amended. For a user function with a context parameter, an invocation with no
  argument or with more than one raises \<^verbatim>\<open>DagsterInvalidInvocationError\<close>, and so do
  a single argument that is \<^verbatim>\<open>None\<close> and a single keyword argument under another
  name than the parameter's; a single context, positional or under the parameter's name,
  is passed to the one call of the user's function. For a user function without parameters,
  any argument raises \<^verbatim>\<open>DagsterInvalidInvocationError\<close>, and no argument calls it.
\<close>

theorem direct_invocation:
  "(run_status_sensor_fn sd = ContextFn p body \<longrightarrow>
      (length args + length kwargs = 0 \<or> length args + length kwargs > 1 \<longrightarrow>
         (\<exists>m. sensor_call sd args kwargs = Inl (DagsterInvalidInvocationError m)))
      \<and> sensor_call sd [PyContext c] [] = Inr (body c)
      \<and> sensor_call sd [] [(p, PyContext c)] = Inr (body c)
      \<and> (\<exists>m. sensor_call sd [PyNone] [] = Inl (DagsterInvalidInvocationError m))
      \<and> (\<exists>m. sensor_call sd [] [(p, PyNone)] = Inl (DagsterInvalidInvocationError m))
      \<and> (k \<noteq> p \<longrightarrow> (\<exists>m. sensor_call sd [] [(k, v)] = Inl (DagsterInvalidInvocationError m))))
   \<and> (run_status_sensor_fn sd = NoArgFn outcome \<longrightarrow>
        (length args + length kwargs > 0 \<longrightarrow>
           (\<exists>m. sensor_call sd args kwargs = Inl (DagsterInvalidInvocationError m)))
        \<and> sensor_call sd [] [] = Inr outcome)"
  by (auto simp: sensor_call_def call_checked_context_def opt_inst_param_def)

theorem direct_invocation_witness:
  "sensor_call (example_sensor requests_run) [PyContext example_user_context] []
     = Inr (Returns (ReturnsOutput (RunRequest ''key'')))
   \<and> sensor_call (example_sensor requests_run) [] [(''context'', PyContext example_user_context)]
     = Inr (Returns (ReturnsOutput (RunRequest ''key'')))
   \<and> sensor_call (example_sensor (NoArgFn (Returns ReturnsNone))) [] []
     = Inr (Returns ReturnsNone)"
  using direct_invocation [of "example_sensor requests_run" "''context''"
      "\<lambda>c. Returns (ReturnsOutput (RunRequest ''key''))" "[]" "[]" example_user_context
      "''ctx''" PyNone "Returns ReturnsNone"]
    direct_invocation [of "example_sensor (NoArgFn (Returns ReturnsNone))" "''context''"
      "\<lambda>c. Returns ReturnsNone" "[]" "[]" example_user_context
      "''ctx''" PyNone "Returns ReturnsNone"]
  by (simp add: example_sensor_fields requests_run_def)

text \<open>
  C10, as stated, fails: one argument is what a function with a context parameter takes, yet
  a context passed under another keyword, or \<^verbatim>\<open>None\<close>, raises and the user's function
  is not called.
\<close>

theorem matching_arity_counterexample:
  "sensor_call (example_sensor requests_run) [] [(''ctx'', PyContext example_user_context)]
     = Inl (DagsterInvalidInvocationError
              (''Run status sensor invocation expected argument '' @ [CHR 0x27] @ ''context''
               @ [CHR 0x27] @ ''.''))
   \<and> sensor_call (example_sensor requests_run) [PyNone] []
     = Inl (DagsterInvalidInvocationError
              ''Context must be provided for direct invocation of run status sensor.'')"
  by (simp add: sensor_call_def example_sensor_fields requests_run_def call_checked_context_def
      opt_inst_param_def)

subsection \<open>What the loop does to the cursor\<close>

lemma cursor_record_id_to_json: "cursor_record_id (Some (to_json c)) = Some (record_id c)"
  by (simp add: cursor_record_id_def from_json_to_json)

lemma cursor_record_id_cursor_for:
  "cursor_record_id (Some (cursor_for tf e rec)) = Some (storage_id e)"
  by (simp add: cursor_for_def cursor_record_id_to_json)

lemma cursor_record_id_approximate:
  "cursor_record_id (Some (approximate_cursor tf e)) = Some (storage_id e)"
  by (simp add: approximate_cursor_def cursor_record_id_to_json)

lemma advances_intro:
  assumes "step = Continue st' \<or> step = Stop st'"
    and "cursor_updates st' = cursor_updates st @ us"
    and "\<forall>u \<in> set us. cursor_record_id (Some u) = Some (storage_id e)"
    and "context_cursor st' = (if us = [] then context_cursor st else Some (last us))"
    and "inspected st' = inspected st @ [storage_id e]"
    and "invoked st' = invoked st \<or> invoked st' = invoked st @ [storage_id e] \<and> us \<noteq> []"
  shows "\<exists>st' us. (step = Continue st' \<or> step = Stop st')
      \<and> cursor_updates st' = cursor_updates st @ us
      \<and> (\<forall>u \<in> set us. cursor_record_id (Some u) = Some (storage_id e))
      \<and> context_cursor st' = (if us = [] then context_cursor st else Some (last us))
      \<and> inspected st' = inspected st @ [storage_id e]
      \<and> (invoked st' = invoked st \<or> invoked st' = invoked st @ [storage_id e] \<and> us \<noteq> [])"
  using assms by blast

lemma process_event_advances:
  "\<exists>st' us. (process_event tf sd ctx st e = Continue st' \<or> process_event tf sd ctx st e = Stop st')
      \<and> cursor_updates st' = cursor_updates st @ us
      \<and> (\<forall>u \<in> set us. cursor_record_id (Some u) = Some (storage_id e))
      \<and> context_cursor st' = (if us = [] then context_cursor st else Some (last us))
      \<and> inspected st' = inspected st @ [storage_id e]
      \<and> (invoked st' = invoked st \<or> invoked st' = invoked st @ [storage_id e] \<and> us \<noteq> [])"
proof (cases "length (run_records_of ctx e) = 1")
  case False
  show ?thesis
    by (rule advances_intro [where us = "[approximate_cursor tf e]"
          and st' = "update_cursor (visit st e) (approximate_cursor tf e)"])
       (simp_all add: process_event_unresolved [OF False] update_cursor_def visit_def
          cursor_record_id_approximate)
next
  case True
  then obtain rec where rec: "run_records_of ctx e = [rec]"
    by (cases "run_records_of ctx e") auto
  let ?u = "cursor_for tf e rec"
  show ?thesis
  proof (cases "job_match sd ctx (dagster_run rec)")
    case (Inl err)
    show ?thesis
      by (rule advances_intro [where us = "[]" and st' = "(visit st e)\<lparr>raised := Some err\<rparr>"])
         (simp_all add: process_event_raises [OF rec Inl] visit_def)
  next
    case (Inr m)
    show ?thesis
    proof (cases m)
      case False
      with Inr have nm: "job_match sd ctx (dagster_run rec) = Inr False" by simp
      show ?thesis
        by (rule advances_intro [where us = "[?u]" and st' = "update_cursor (visit st e) ?u"])
           (simp_all add: process_event_no_match [OF rec nm] update_cursor_def visit_def
              cursor_record_id_cursor_for)
    next
      case True
      with Inr have m: "job_match sd ctx (dagster_run rec) = Inr True" by simp
      note step = process_event_matched [OF rec m, of tf st]
      let ?call = "call_with_context (run_status_sensor_fn sd) (user_context_for sd ctx e rec)"
      show ?thesis
      proof (cases ?call)
        case (Raises x)
        show ?thesis
          by (rule advances_intro [where us = "[?u]"
                and st' = "react sd tf e rec (Some x) (call_user st e)"])
             (simp_all add: step Raises react_def yield_outputs_def update_cursor_def
                call_user_def visit_def cursor_record_id_cursor_for)
      next
        case (Returns ret)
        show ?thesis
        proof (cases ret)
          case ReturnsNone
          show ?thesis
            by (rule advances_intro [where us = "[?u]"
                  and st' = "react sd tf e rec None (call_user st e)"])
               (simp_all add: step Returns ReturnsNone react_def yield_outputs_def
                  update_cursor_def call_user_def visit_def cursor_record_id_cursor_for)
        next
          case (ReturnsOutput out)
          show ?thesis
            by (rule advances_intro [where us = "[?u]"
                  and st' = "yield_outputs (update_cursor (call_user st e) ?u) [out]"])
               (simp_all add: step Returns ReturnsOutput yield_outputs_def
                  update_cursor_def call_user_def visit_def cursor_record_id_cursor_for)
        next
          case (ReturnsIterable outs failure)
          show ?thesis
          proof (cases failure)
            case None
            show ?thesis
              by (rule advances_intro [where us = "[?u]"
                    and st' = "yield_outputs (update_cursor (call_user st e) ?u) outs"])
                 (simp_all add: step Returns ReturnsIterable None yield_outputs_def
                    update_cursor_def call_user_def visit_def cursor_record_id_cursor_for)
          next
            case (Some x)
            show ?thesis
              by (rule advances_intro [where us = "[?u, ?u]"
                    and st' = "react sd tf e rec (Some x)
                      (yield_outputs (update_cursor (call_user st e) ?u) outs)"])
                 (simp_all add: step Returns ReturnsIterable Some react_def yield_outputs_def
                    update_cursor_def call_user_def visit_def cursor_record_id_cursor_for)
          qed
        qed
      qed
    qed
  qed
qed

lemma decode_same:
  "\<forall>u \<in> set us. cursor_record_id (Some u) = Some i \<Longrightarrow>
   map (\<lambda>u. cursor_record_id (Some u)) us = map Some (replicate (length us) i)"
  by (induction us) auto

lemma scan_events_advances:
  "\<exists>us ids inv n.
      cursor_updates (scan_events tf sd ctx st es) = cursor_updates st @ us
    \<and> map (\<lambda>u. cursor_record_id (Some u)) us = map Some ids
    \<and> set ids \<subseteq> storage_id ` set es
    \<and> (sorted (map storage_id es) \<longrightarrow> sorted ids)
    \<and> context_cursor (scan_events tf sd ctx st es)
        = (if us = [] then context_cursor st else Some (last us))
    \<and> invoked (scan_events tf sd ctx st es) = invoked st @ inv
    \<and> set inv \<subseteq> set ids
    \<and> n \<le> length es
    \<and> inspected (scan_events tf sd ctx st es) = inspected st @ map storage_id (take n es)"
proof (induction es arbitrary: st)
  case Nil
  show ?case
    by (rule exI [of _ "[]"], rule exI [of _ "[]"], rule exI [of _ "[]"], rule exI [of _ 0]) simp
next
  case (Cons e es)
  let ?i = "storage_id e"
  from process_event_advances [of tf sd ctx st e]
  obtain st' us1 where
    step: "process_event tf sd ctx st e = Continue st' \<or> process_event tf sd ctx st e = Stop st'"
    and upd1: "cursor_updates st' = cursor_updates st @ us1"
    and ids1: "\<forall>u \<in> set us1. cursor_record_id (Some u) = Some ?i"
    and cur1: "context_cursor st' = (if us1 = [] then context_cursor st else Some (last us1))"
    and ins1: "inspected st' = inspected st @ [?i]"
    and inv1: "invoked st' = invoked st \<or> invoked st' = invoked st @ [?i] \<and> us1 \<noteq> []"
    by blast
  let ?ids1 = "replicate (length us1) ?i"
  have dec1: "map (\<lambda>u. cursor_record_id (Some u)) us1 = map Some ?ids1"
    by (rule decode_same [OF ids1])
  obtain inv1' where inv1': "invoked st' = invoked st @ inv1'" "set inv1' \<subseteq> set ?ids1"
  proof (cases "invoked st' = invoked st")
    case True
    then show ?thesis using that [of "[]"] by simp
  next
    case False
    with inv1 have "invoked st' = invoked st @ [?i]" "us1 \<noteq> []" by auto
    then show ?thesis using that [of "[?i]"] by simp
  qed
  from step show ?case
  proof
    assume stop: "process_event tf sd ctx st e = Stop st'"
    then have eq: "scan_events tf sd ctx st (e # es) = st'" by simp
    show ?thesis
      unfolding eq
      by (rule exI [of _ us1], rule exI [of _ ?ids1], rule exI [of _ inv1'], rule exI [of _ 1])
         (use upd1 dec1 cur1 ins1 inv1' in auto)
  next
    assume cont: "process_event tf sd ctx st e = Continue st'"
    then have eq: "scan_events tf sd ctx st (e # es) = scan_events tf sd ctx st' es" by simp
    from Cons.IH [of st'] obtain us2 ids2 inv2 n2 where
      upd2: "cursor_updates (scan_events tf sd ctx st' es) = cursor_updates st' @ us2"
      and dec2: "map (\<lambda>u. cursor_record_id (Some u)) us2 = map Some ids2"
      and sub2: "set ids2 \<subseteq> storage_id ` set es"
      and srt2: "sorted (map storage_id es) \<longrightarrow> sorted ids2"
      and cur2: "context_cursor (scan_events tf sd ctx st' es)
          = (if us2 = [] then context_cursor st' else Some (last us2))"
      and inv2: "invoked (scan_events tf sd ctx st' es) = invoked st' @ inv2"
      and isub2: "set inv2 \<subseteq> set ids2"
      and n2: "n2 \<le> length es"
      and ins2: "inspected (scan_events tf sd ctx st' es)
          = inspected st' @ map storage_id (take n2 es)"
      by blast
    have srt: "sorted (map storage_id (e # es)) \<longrightarrow> sorted (?ids1 @ ids2)"
    proof
      assume s: "sorted (map storage_id (e # es))"
      then have "\<forall>y \<in> set ids2. ?i \<le> y" using sub2 by auto
      moreover have "sorted ids2" using s srt2 by simp
      ultimately show "sorted (?ids1 @ ids2)"
        by (auto simp: sorted_append)
    qed
    show ?thesis
      unfolding eq
    proof (rule exI [of _ "us1 @ us2"], rule exI [of _ "?ids1 @ ids2"],
        rule exI [of _ "inv1' @ inv2"], rule exI [of _ "Suc n2"], intro conjI)
      show "cursor_updates (scan_events tf sd ctx st' es) = cursor_updates st @ us1 @ us2"
        using upd1 upd2 by simp
      show "map (\<lambda>u. cursor_record_id (Some u)) (us1 @ us2) = map Some (?ids1 @ ids2)"
        using dec1 dec2 by simp
      show "set (?ids1 @ ids2) \<subseteq> storage_id ` set (e # es)"
        using sub2 by auto
      show "sorted (map storage_id (e # es)) \<longrightarrow> sorted (?ids1 @ ids2)"
        by (rule srt)
      show "context_cursor (scan_events tf sd ctx st' es)
          = (if us1 @ us2 = [] then context_cursor st else Some (last (us1 @ us2)))"
        using cur1 cur2 by simp
      show "invoked (scan_events tf sd ctx st' es) = invoked st @ inv1' @ inv2"
        using inv1' inv2 by simp
      show "set (inv1' @ inv2) \<subseteq> set (?ids1 @ ids2)"
        using inv1' isub2 by auto
      show "Suc n2 \<le> length (e # es)"
        using n2 by simp
      show "inspected (scan_events tf sd ctx st' es)
          = inspected st @ map storage_id (take (Suc n2) (e # es))"
        using ins1 ins2 by simp
    qed
  qed
qed

subsection \<open>The batch of a tick\<close>

lemma get_event_records_length: "length (get_event_records inst flt asc limit) \<le> limit"
  by (simp add: get_event_records_def Let_def)

lemma get_event_records_members:
  "e \<in> set (get_event_records inst flt asc limit) \<Longrightarrow>
   e \<in> set (event_log inst)
   \<and> event_type (entry_dagster_event (event_log_entry e)) = filter_event_type flt
   \<and> (case after_cursor flt of None \<Rightarrow> True | Some c \<Rightarrow> cursor_id c < storage_id e)"
  by (auto simp: get_event_records_def Let_def dest!: in_set_takeD split: if_splits)

lemma get_event_records_sorted:
  "sorted (map storage_id (get_event_records inst flt True limit))"
  by (simp add: get_event_records_def Let_def take_map [symmetric] sorted_wrt_take)

lemma distinct_map_sort_key:
  "distinct (map f xs) \<Longrightarrow> distinct (map f (sort_key f xs))"
  by (simp add: distinct_map)

lemma get_event_records_distinct:
  "distinct (map storage_id (event_log inst)) \<Longrightarrow>
   distinct (map storage_id (get_event_records inst flt True limit))"
  by (simp add: get_event_records_def Let_def take_map [symmetric] distinct_map_filter
      distinct_map_sort_key del: distinct_map)

lemma scanning_batch_fetch:
  assumes "cursor ctx = Some json_str" and "from_json json_str = Inr c"
    and "scanning_batch tf sd ctx = Some batch"
  shows "\<exists>t. batch = fetch_events sd ctx (record_id c) t"
  using assms by (auto simp: scanning_batch_def split: if_splits option.splits)

lemma batch_seven:
  "scanning_batch example_times (example_sensor fn) (example_context instance_seven (Some cursor_zero))
     = Some [success_event 1 ''ghost'' 1, success_event 2 ''ghost'' 1, success_event 3 ''ghost'' 1,
             success_event 4 ''ghost'' 1, success_event 5 ''ghost'' 1]"
  by (simp add: example_batch instance_seven_def success_event_def)

lemma runs_seven:
  "run_records_of (example_context instance_seven stored) (success_event i ''ghost'' t) = []"
  by (simp add: run_records_of_def get_run_records_def example_context_def instance_seven_def
      success_event_def run_a_def run_b_def)

lemma tick_seven:
  "inspected (wrapped_fn example_times (example_sensor returns_none)
     (example_context instance_seven (Some cursor_zero))) = [1, 2, 3, 4, 5]
   \<and> context_cursor (wrapped_fn example_times (example_sensor returns_none)
     (example_context instance_seven (Some cursor_zero)))
     = Some (to_json \<lparr>record_id = 5, update_timestamp = ''2023-01-05T10:00:01+00:00''\<rparr>)"
proof -
  have u: "\<And>i st. process_event example_times (example_sensor returns_none)
      (example_context instance_seven (Some cursor_zero)) st (success_event i ''ghost'' 1)
      = Continue (update_cursor (visit st (success_event i ''ghost'' 1))
          (approximate_cursor example_times (success_event i ''ghost'' 1)))"
    by (rule process_event_unresolved) (simp add: runs_seven)
  show ?thesis
    by (simp add: wrapped_fn_scanning [OF batch_seven] u update_cursor_def visit_def
        approximate_cursor_def initial_evaluation_def example_event_fields example_floor
        example_iso)
qed

lemma scanning_batch_facts:
  assumes cur: "cursor ctx = Some json_str"
    and dec: "from_json json_str = Inr c"
    and batch: "scanning_batch tf sd ctx = Some batch"
  shows "length batch \<le> 5"
    and "\<forall>e \<in> set batch.
           e \<in> set (event_log (sensor_instance ctx))
           \<and> event_type (entry_dagster_event (event_log_entry e)) = monitored_event_type sd
           \<and> record_id c < storage_id e"
    and "sorted (map storage_id batch)"
    and "distinct (map storage_id (event_log (sensor_instance ctx)))
          \<longrightarrow> sorted_wrt (<) (map storage_id batch)"
proof -
  from scanning_batch_fetch [OF cur dec batch]
  obtain t where b: "batch = fetch_events sd ctx (record_id c) t" ..
  show "length batch \<le> 5"
    unfolding b fetch_events_def by (rule get_event_records_length)
  show "\<forall>e \<in> set batch.
      e \<in> set (event_log (sensor_instance ctx))
      \<and> event_type (entry_dagster_event (event_log_entry e)) = monitored_event_type sd
      \<and> record_id c < storage_id e"
    unfolding b fetch_events_def using get_event_records_members by fastforce
  show srt: "sorted (map storage_id batch)"
    unfolding b fetch_events_def by (rule get_event_records_sorted)
  show "distinct (map storage_id (event_log (sensor_instance ctx)))
      \<longrightarrow> sorted_wrt (<) (map storage_id batch)"
    using srt get_event_records_distinct [of "sensor_instance ctx"]
    unfolding b fetch_events_def by (auto simp: strict_sorted_iff)
qed

lemma inspected_prefix:
  assumes batch: "scanning_batch tf sd ctx = Some batch"
  shows "\<exists>n \<le> length batch. inspected (wrapped_fn tf sd ctx) = map storage_id (take n batch)"
proof -
  from scan_events_advances [of tf sd ctx "initial_evaluation ctx" batch]
  obtain n where n: "n \<le> length batch"
    and ins: "inspected (scan_events tf sd ctx (initial_evaluation ctx) batch)
        = inspected (initial_evaluation ctx) @ map storage_id (take n batch)"
    by blast
  have "inspected (wrapped_fn tf sd ctx) = map storage_id (take n batch)"
    using ins by (simp add: wrapped_fn_scanning [OF batch] initial_evaluation_def)
  with n show ?thesis by blast
qed

text \<open>
  C8. A tick that scans fetches at most five events; each is an event of the log of the
  monitored type with an id greater than the record id of the cursor; they come by ascending
  id (strictly, when the ids of the log are distinct); and the events that the tick
  inspects are the first ones of that batch, so at most five.
\<close>

theorem bounded_ascending_batch:
  assumes cur: "cursor ctx = Some json_str"
    and dec: "from_json json_str = Inr c"
    and batch: "scanning_batch tf sd ctx = Some batch"
  shows
    "length batch \<le> 5
     \<and> (\<forall>e \<in> set batch.
           e \<in> set (event_log (sensor_instance ctx))
           \<and> event_type (entry_dagster_event (event_log_entry e)) = monitored_event_type sd
           \<and> record_id c < storage_id e)
     \<and> sorted (map storage_id batch)
     \<and> (distinct (map storage_id (event_log (sensor_instance ctx)))
          \<longrightarrow> sorted_wrt (<) (map storage_id batch))
     \<and> (\<exists>n \<le> length batch. inspected (wrapped_fn tf sd ctx) = map storage_id (take n batch))
     \<and> length (inspected (wrapped_fn tf sd ctx)) \<le> 5"
proof -
  note facts = scanning_batch_facts [OF cur dec batch]
  from inspected_prefix [OF batch] obtain n where n: "n \<le> length batch"
    and ins: "inspected (wrapped_fn tf sd ctx) = map storage_id (take n batch)"
    by blast
  have "length (inspected (wrapped_fn tf sd ctx)) \<le> 5"
    using ins n facts(1) by simp
  with facts n ins show ?thesis by blast
qed

theorem bounded_ascending_batch_witness:
  "scanning_batch example_times (example_sensor returns_none)
     (example_context instance_seven (Some cursor_zero))
     = Some [success_event 1 ''ghost'' 1, success_event 2 ''ghost'' 1,
             success_event 3 ''ghost'' 1, success_event 4 ''ghost'' 1,
             success_event 5 ''ghost'' 1]
   \<and> inspected (wrapped_fn example_times (example_sensor returns_none)
        (example_context instance_seven (Some cursor_zero))) = [1, 2, 3, 4, 5]
   \<and> length (inspected (wrapped_fn example_times (example_sensor returns_none)
        (example_context instance_seven (Some cursor_zero)))) \<le> 5"
proof -
  have cur: "cursor (example_context instance_seven (Some cursor_zero)) = Some cursor_zero"
    by (simp add: example_context_fields)
  have dec: "from_json cursor_zero = Inr \<lparr>record_id = 0, update_timestamp = example_isoformat 5\<rparr>"
    by (simp add: cursor_zero_def from_json_to_json)
  show ?thesis
    using bounded_ascending_batch [OF cur dec batch_seven] tick_seven
    by (simp add: batch_seven)
qed

subsection \<open>The first tick\<close>

lemma sorted_le_last: "sorted ys \<Longrightarrow> y \<in> set ys \<Longrightarrow> y \<le> last ys"
  by (induction ys) auto

lemma last_sort_key_Max:
  assumes "xs \<noteq> []"
  shows "f (last (sort_key f xs)) = Max (f ` set xs)"
proof -
  let ?ys = "map f (sort_key f xs)"
  have "set (sort_key f xs) = set xs" by simp
  with assms have ne0: "sort_key f xs \<noteq> []" by (metis set_empty)
  then have ne: "?ys \<noteq> []" by simp
  have srt: "sorted ?ys" by (rule sorted_sort_key)
  have "last ?ys = Max (set ?ys)"
  proof (rule Max_eqI [symmetric])
    show "finite (set ?ys)" by simp
    show "\<And>y. y \<in> set ?ys \<Longrightarrow> y \<le> last ?ys" using srt by (rule sorted_le_last)
    show "last ?ys \<in> set ?ys" using ne by (rule last_in_set)
  qed
  moreover have "last ?ys = f (last (sort_key f xs))"
    using ne by (simp add: last_map)
  ultimately show ?thesis by simp
qed

lemma most_recent_event:
  "(case get_event_records inst \<lparr>filter_event_type = et, after_cursor = None\<rparr> False 1 of
      [r] \<Rightarrow> storage_id r
    | _ \<Rightarrow> - 1) = latest_event_id inst et"
proof -
  let ?sel = "filter (\<lambda>r. event_type (entry_dagster_event (event_log_entry r)) = et) (event_log inst)"
  let ?ord = "sort_key storage_id ?sel"
  have g: "get_event_records inst \<lparr>filter_event_type = et, after_cursor = None\<rparr> False 1
      = take 1 (rev ?ord)"
    by (simp add: get_event_records_def)
  show ?thesis
  proof (cases "?sel = []")
    case True
    then show ?thesis
      unfolding g by (simp add: latest_event_id_def event_ids_def)
  next
    case False
    have "set ?ord = set ?sel" by simp
    with False have ne: "?ord \<noteq> []" by (metis set_empty)
    then have "take 1 (rev ?ord) = [last ?ord]"
      by (cases ?ord rule: rev_cases) simp_all
    moreover have "storage_id (last ?ord) = Max (storage_id ` set ?sel)"
      by (rule last_sort_key_Max [OF False])
    ultimately show ?thesis
      using False unfolding g by (simp add: latest_event_id_def event_ids_def)
  qed
qed

lemma wrapped_fn_initiates:
  assumes "case cursor ctx of None \<Rightarrow> True | Some json_str \<Rightarrow> \<not> is_valid json_str"
  shows
    "wrapped_fn tf sd ctx =
       \<lparr>context_cursor =
          Some (to_json \<lparr>record_id = latest_event_id (sensor_instance ctx) (monitored_event_type sd),
                         update_timestamp = isoformat tf (now_utc tf)\<rparr>),
        cursor_updates =
          [to_json \<lparr>record_id = latest_event_id (sensor_instance ctx) (monitored_event_type sd),
                    update_timestamp = isoformat tf (now_utc tf)\<rparr>],
        yielded =
          [SkipReason (''Initiating '' @ name sd @ ''. Set cursor to ''
             @ cursor_repr
                 \<lparr>record_id = latest_event_id (sensor_instance ctx) (monitored_event_type sd),
                  update_timestamp = isoformat tf (now_utc tf)\<rparr>)],
        inspected = [], invoked = [], raised = None\<rparr>"
proof -
  have w: "wrapped_fn tf sd ctx = initiate_cursor tf sd ctx"
    using assms by (simp add: wrapped_fn_def split: option.splits)
  show ?thesis
    unfolding w initiate_cursor_def Let_def most_recent_event
    by (simp add: yield_outputs_def update_cursor_def initial_evaluation_def)
qed

lemma wrapped_fn_initiates_fields:
  assumes "case cursor ctx of None \<Rightarrow> True | Some json_str \<Rightarrow> \<not> is_valid json_str"
  shows "context_cursor (wrapped_fn tf sd ctx) =
           Some (to_json \<lparr>record_id = latest_event_id (sensor_instance ctx) (monitored_event_type sd),
                          update_timestamp = isoformat tf (now_utc tf)\<rparr>)"
    and "cursor_updates (wrapped_fn tf sd ctx) =
           [to_json \<lparr>record_id = latest_event_id (sensor_instance ctx) (monitored_event_type sd),
                     update_timestamp = isoformat tf (now_utc tf)\<rparr>]"
    and "inspected (wrapped_fn tf sd ctx) = []"
    and "invoked (wrapped_fn tf sd ctx) = []"
    and "raised (wrapped_fn tf sd ctx) = None"
  unfolding wrapped_fn_initiates [OF assms] by simp_all

text \<open>
  C5. A tick whose context has no cursor, or a cursor that is not valid, inspects no event
  and calls the user's function for none; it yields one \<^verbatim>\<open>SkipReason\<close> and nothing
  else; and it writes one cursor, whose record id is the greatest id of the events of the
  monitored type in the log, or \<open>-1\<close> when there is none.
\<close>

theorem bootstrap_skips_history:
  assumes "case cursor ctx of None \<Rightarrow> True | Some json_str \<Rightarrow> \<not> is_valid json_str"
  shows
    "wrapped_fn tf sd ctx =
       \<lparr>context_cursor =
          Some (to_json \<lparr>record_id = latest_event_id (sensor_instance ctx) (monitored_event_type sd),
                         update_timestamp = isoformat tf (now_utc tf)\<rparr>),
        cursor_updates =
          [to_json \<lparr>record_id = latest_event_id (sensor_instance ctx) (monitored_event_type sd),
                    update_timestamp = isoformat tf (now_utc tf)\<rparr>],
        yielded =
          [SkipReason (''Initiating '' @ name sd @ ''. Set cursor to ''
             @ cursor_repr
                 \<lparr>record_id = latest_event_id (sensor_instance ctx) (monitored_event_type sd),
                  update_timestamp = isoformat tf (now_utc tf)\<rparr>)],
        inspected = [], invoked = [], raised = None\<rparr>
     \<and> cursor_record_id (context_cursor (wrapped_fn tf sd ctx))
         = Some (latest_event_id (sensor_instance ctx) (monitored_event_type sd))"
  using wrapped_fn_initiates [OF assms, of tf sd] wrapped_fn_initiates_fields(1) [OF assms, of tf sd]
  by (simp add: cursor_record_id_to_json)

lemma latest_two: "latest_event_id instance_two ''PIPELINE_SUCCESS'' = 2"
  by (simp add: latest_event_id_def event_ids_def instance_two_def success_event_def)

lemma plain_number_invalid: "\<not> is_valid ''12''"
  by (simp add: is_valid_def deserialize_value_def expect_def)

theorem bootstrap_skips_history_witness:
  "wrapped_fn example_times (example_sensor requests_run) (example_context instance_two (Some ''12''))
     = \<lparr>context_cursor =
          Some (to_json \<lparr>record_id = 2, update_timestamp = ''2023-01-05T10:00:30+00:00''\<rparr>),
        cursor_updates =
          [to_json \<lparr>record_id = 2, update_timestamp = ''2023-01-05T10:00:30+00:00''\<rparr>],
        yielded =
          [SkipReason (''Initiating my_sensor. Set cursor to ''
             @ ''RunStatusSensorCursor(record_id=2, update_timestamp='' @ [CHR 0x27]
             @ ''2023-01-05T10:00:30+00:00'' @ [CHR 0x27] @ '')'')],
        inspected = [], invoked = [], raised = None\<rparr>
   \<and> wrapped_fn example_times (example_sensor requests_run) (example_context instance_ghost None)
     = wrapped_fn example_times (example_sensor requests_run)
         (example_context instance_two (Some ''12''))"
proof -
  have a: "case cursor (example_context instance_two (Some ''12'')) of
      None \<Rightarrow> True | Some json_str \<Rightarrow> \<not> is_valid json_str"
    by (simp add: example_context_fields plain_number_invalid)
  have b: "case cursor (example_context instance_ghost None) of
      None \<Rightarrow> True | Some json_str \<Rightarrow> \<not> is_valid json_str"
    by (simp add: example_context_fields)
  have now: "now_utc example_times = 30"
    by (simp add: example_times_def)
  have et: "\<And>fn. monitored_event_type (example_sensor fn) = ''PIPELINE_SUCCESS''"
    by (simp add: example_sensor_def)
  have lg: "latest_event_id instance_ghost ''PIPELINE_SUCCESS'' = 2"
    by (simp add: latest_event_id_def event_ids_def instance_ghost_def success_event_def)
  show ?thesis
    using bootstrap_skips_history [OF a, of example_times "example_sensor requests_run"]
      bootstrap_skips_history [OF b, of example_times "example_sensor requests_run"]
    by (simp add: example_context_fields example_sensor_fields et latest_two lg now example_iso
        cursor_repr_def show_int_def show_nat.simps digit_chars_def)
qed

end
